theory Spec2Isabelle
  imports Complex_Main
begin

section \<open>Exceptions\<close>

text \<open>
  Every exception class that the services raise or catch is a constructor of \<open>exn\<close>.
  The message of an exception is kept structured (\<open>msg\<close>): one constructor for each
  message template of the source, holding the values the template interpolates. The
  Portuguese texts are quoted in the comments of the constructors.
\<close>

datatype exn =
    InvalidToken                      \<comment> \<open>cryptography.fernet.InvalidToken\<close>
  | BinanceLibException string        \<comment> \<open>binance.exceptions.BinanceAPIException\<close>
  | KeyError string
  | TypeError
  | ZeroDivisionError
  | ValidationError                   \<comment> \<open>pydantic rejects a model field\<close>
  | OtherException string             \<comment> \<open>any other failure of a library call\<close>
  | ValueError msg
  | BinanceAPIException msg           \<comment> \<open>app.models.exceptions.BinanceAPIException\<close>
  | NotFoundException msg             \<comment> \<open>app.models.exceptions.NotFoundException\<close>
and msg =
    Str_of exn                        \<comment> \<open>str(e)\<close>
  | Credentials_required              \<comment> \<open>"API Key e API Secret sao obrigatorios"\<close>
  | Binance_connect_error exn         \<comment> \<open>"Erro ao conectar com a Binance: {e}"\<close>
  | Price_error string exn            \<comment> \<open>"Erro ao obter preco para {symbol}: {e}"\<close>
  | Wallet_connect_error exn          \<comment> \<open>"Erro ao conectar a carteira: {e}"\<close>
  | Wallet_not_connected              \<comment> \<open>"Carteira nao encontrada ou nao conectada"\<close>
  | Wallet_balance_error exn          \<comment> \<open>"Erro ao obter saldo da carteira: {e}"\<close>
  | Wallet_id_not_found string        \<comment> \<open>"Carteira com ID {wallet_id} nao encontrada"\<close>
  | Bot_already_running               \<comment> \<open>"O bot ja esta em execucao"\<close>
  | Invalid_symbol_or_connection exn  \<comment> \<open>"Simbolo invalido ou erro de conexao: {e}"\<close>
  | Buy_order_error exn               \<comment> \<open>"Erro ao executar ordem de compra: {e}"\<close>
  | Sell_order_error exn              \<comment> \<open>"Erro ao executar ordem de venda: {e}"\<close>
  | Get_order_error exn               \<comment> \<open>"Erro ao obter informacoes da ordem: {e}"\<close>
  | Get_orders_error exn              \<comment> \<open>"Erro ao obter ordens: {e}"\<close>
  | Cancel_order_error exn            \<comment> \<open>"Erro ao cancelar ordem: {e}"\<close>
  | Invalid_int string                \<comment> \<open>"invalid literal for int() with base 10: 'x'"\<close>
  | Invalid_enum_value string         \<comment> \<open>"'x' is not a valid OrderSide" and the like\<close>
  | Invalid_float string              \<comment> \<open>"could not convert string to float: 'x'"\<close>

text \<open>The class of an exception: what an \<open>except\<close> clause of a caller can tell apart.\<close>

datatype exn_class =
    Cls_InvalidToken | Cls_BinanceLibException | Cls_KeyError | Cls_TypeError
  | Cls_ZeroDivisionError | Cls_ValidationError | Cls_OtherException | Cls_ValueError
  | Cls_BinanceAPIException | Cls_NotFoundException

fun class_of :: "exn \<Rightarrow> exn_class" where
  "class_of InvalidToken = Cls_InvalidToken"
| "class_of (BinanceLibException _) = Cls_BinanceLibException"
| "class_of (KeyError _) = Cls_KeyError"
| "class_of TypeError = Cls_TypeError"
| "class_of ZeroDivisionError = Cls_ZeroDivisionError"
| "class_of ValidationError = Cls_ValidationError"
| "class_of (OtherException _) = Cls_OtherException"
| "class_of (ValueError _) = Cls_ValueError"
| "class_of (BinanceAPIException _) = Cls_BinanceAPIException"
| "class_of (NotFoundException _) = Cls_NotFoundException"

section \<open>The world outside the services\<close>

text \<open>
  The exchange library (python-binance), the Fernet cipher, \<open>float()\<close> and \<open>int()\<close>
  on a string and the clock are not code of the repository. Their behaviour at the moment of a call is
  the record \<open>env\<close>: each service function takes the \<open>env\<close> of its call, so two
  calls may see different answers from the exchange. A library call that raises returns
  \<open>Inl\<close> of the exception. Python floats are modelled as reals.
\<close>

record client =
  c_api_key :: string
  c_api_secret :: string
  c_testnet :: bool

record order_params =
  p_symbol :: string
  p_side :: string
  p_type :: string
  p_timeInForce :: "string option"
  p_quantity :: real
  p_price :: "real option"

text \<open>
  An order as the exchange answers it (a JSON object): every key may be missing; a key
  that is present has the JSON type the exchange documents for it.
\<close>

record order_data =
  od_orderId :: "int option"
  od_symbol :: "string option"
  od_side :: "string option"
  od_type :: "string option"
  od_status :: "string option"
  od_origQty :: "string option"
  od_price :: "string option"
  od_executedQty :: "string option"
  od_cummulativeQuoteQty :: "string option"
  od_time :: "int option"
  od_updateTime :: "int option"

record balance_row =
  bal_asset :: string
  bal_free :: string
  bal_locked :: string

record env =
  settings_BINANCE_API_KEY :: string
  settings_BINANCE_API_SECRET :: string
  fernet_encrypt :: "string \<Rightarrow> string"
  fernet_decrypt :: "string \<Rightarrow> exn + string"
  lib_Client :: "string \<Rightarrow> string \<Rightarrow> bool \<Rightarrow> exn option"
  lib_ping :: "client \<Rightarrow> exn option"
  lib_get_symbol_ticker :: "client \<Rightarrow> string \<Rightarrow> exn + real"
  lib_get_account :: "client \<Rightarrow> exn + balance_row list"
  lib_create_order :: "client \<Rightarrow> order_params \<Rightarrow> exn + order_data"
  lib_get_order :: "client \<Rightarrow> string \<Rightarrow> int \<Rightarrow> exn + order_data"
  lib_get_all_orders :: "client \<Rightarrow> string \<Rightarrow> exn + order_data list"
  lib_cancel_order :: "client \<Rightarrow> string \<Rightarrow> int \<Rightarrow> exn + order_data"
  py_float :: "string \<Rightarrow> real option"
  py_int :: "string \<Rightarrow> int option"
  utcnow :: string

section \<open>binance\_client.py\<close>

text \<open>
  \<open>BinanceClientWrapper.__init__\<close>: an empty key or secret falls back to the settings;
  if one is still empty the constructor raises \<open>ValueError\<close>; a library exception of
  the \<open>Client\<close> constructor is re-raised as the application's \<open>BinanceAPIException\<close>.
  (Every caller passes a boolean for \<open>testnet\<close>, so its fallback is never taken.)
\<close>

definition get_binance_client :: "env \<Rightarrow> string \<Rightarrow> string \<Rightarrow> bool \<Rightarrow> exn + client" where
  "get_binance_client e api_key api_secret testnet =
     (let k = (if api_key \<noteq> [] then api_key else settings_BINANCE_API_KEY e);
          s = (if api_secret \<noteq> [] then api_secret else settings_BINANCE_API_SECRET e)
      in if k = [] \<or> s = [] then Inl (ValueError Credentials_required)
         else (case lib_Client e k s testnet of
                 Some (BinanceLibException m) \<Rightarrow>
                   Inl (BinanceAPIException (Str_of (BinanceLibException m)))
               | Some x \<Rightarrow> Inl x
               | None \<Rightarrow> Inr \<lparr>c_api_key = k, c_api_secret = s, c_testnet = testnet\<rparr>))"

definition test_connection :: "env \<Rightarrow> client \<Rightarrow> exn + bool" where
  "test_connection e c =
     (case lib_ping e c of
        None \<Rightarrow> Inr True
      | Some (BinanceLibException m) \<Rightarrow>
          Inl (BinanceAPIException (Binance_connect_error (BinanceLibException m)))
      | Some x \<Rightarrow> Inl x)"

text \<open>
  \<open>get_price\<close>: \<open>lib_get_symbol_ticker\<close> stands for the library call together with
  \<open>float(ticker["price"])\<close>; a ticker without a usable price is one of its \<open>Inl\<close>
  answers (\<open>KeyError\<close>, \<open>ValueError\<close>), which the wrapper lets through.
\<close>

definition get_price :: "env \<Rightarrow> client \<Rightarrow> string \<Rightarrow> exn + real" where
  "get_price e c symb =
     (case lib_get_symbol_ticker e c symb of
        Inr p \<Rightarrow> Inr p
      | Inl (BinanceLibException m) \<Rightarrow>
          Inl (BinanceAPIException (Price_error symb (BinanceLibException m)))
      | Inl x \<Rightarrow> Inl x)"

section \<open>wallet\_service.py\<close>

subsection \<open>base64.b64encode\<close>

definition b64_alphabet :: string where
  "b64_alphabet = ''ABCDEFGHIJKLMNOPQRSTUVWXYZabcdefghijklmnopqrstuvwxyz0123456789+/''"

definition b64_digit :: "nat \<Rightarrow> char" where
  "b64_digit n = b64_alphabet ! (n mod 64)"

fun b64encode :: "nat list \<Rightarrow> string" where
  "b64encode [] = []"
| "b64encode [a] =
     [b64_digit (a div 4), b64_digit ((a mod 4) * 16), CHR ''='', CHR ''='']"
| "b64encode [a, b] =
     [b64_digit (a div 4), b64_digit ((a mod 4) * 16 + b div 16),
      b64_digit ((b mod 16) * 4), CHR ''='']"
| "b64encode (a # b # c # rest) =
     [b64_digit (a div 4), b64_digit ((a mod 4) * 16 + b div 16),
      b64_digit ((b mod 16) * 4 + c div 64), b64_digit (c mod 64)] @ b64encode rest"

text \<open>
  \<open>base64.b64encode(api_key[-8:].encode()).decode()\<close>. A \<open>string\<close> holds the UTF-8
  bytes of the Python text, so \<open>.encode()\<close> is the identity, and \<open>api_key[-8:]\<close>, the
  last 8 characters, is the shortest suffix that holds 8 bytes which are not continuation
  bytes (\<open>10xxxxxx\<close>), or the whole key when it has fewer characters. For an ASCII
  key these are its last 8 bytes. \<open>take_last_chars\<close> walks the reversed bytes: a
  continuation byte comes before the first byte of its character there.
\<close>

definition is_continuation :: "char \<Rightarrow> bool" where
  "is_continuation c = ((of_char c :: nat) div 64 = 2)"

fun take_last_chars :: "nat \<Rightarrow> string \<Rightarrow> string" where
  "take_last_chars n [] = []"
| "take_last_chars n (c # cs) =
     (if n = 0 then []
      else c # take_last_chars (if is_continuation c then n else n - 1) cs)"

definition last8 :: "string \<Rightarrow> string" where
  "last8 api_key = rev (take_last_chars 8 (rev api_key))"

definition wallet_id_of :: "string \<Rightarrow> string" where
  "wallet_id_of api_key = b64encode (map of_char (last8 api_key))"

subsection \<open>The vault and its objects\<close>

text \<open>
  \<open>_wallets\<close> is a dict from wallet ids to dict objects, and Python dicts are mutable
  objects held by reference. The model keeps the objects in a heap (a list, a reference
  is an index, a new object is appended) and \<open>wallets\<close> maps an id to the reference of
  its record, so that \<open>.copy()\<close> and \<open>.pop()\<close> are what they are in Python: an
  allocation and an update in place.
\<close>

datatype pyval = PStr string | PBool bool

type_synonym pydict = "(string \<times> pyval) list"

record wallet_service =
  wallets :: "string \<rightharpoonup> nat"
  heap :: "pydict list"

definition new_wallet_service :: wallet_service where
  "new_wallet_service = \<lparr>wallets = Map.empty, heap = []\<rparr>"

definition dict_getitem :: "pydict \<Rightarrow> string \<Rightarrow> exn + pyval" where
  "dict_getitem d k = (case map_of d k of None \<Rightarrow> Inl (KeyError k) | Some v \<Rightarrow> Inr v)"

definition dict_pop :: "string \<Rightarrow> pydict \<Rightarrow> exn + pydict" where
  "dict_pop k d =
     (case map_of d k of
        None \<Rightarrow> Inl (KeyError k)
      | Some v \<Rightarrow> Inr (filter (\<lambda>kv. fst kv \<noteq> k) d))"

text \<open>\<open>obj.pop(k)\<close> on the object at reference \<open>r\<close>: the heap cell is replaced.\<close>

definition pop_at :: "wallet_service \<Rightarrow> nat \<Rightarrow> string \<Rightarrow> exn + wallet_service" where
  "pop_at ws r k =
     (case dict_pop k (heap ws ! r) of
        Inl x \<Rightarrow> Inl x
      | Inr d \<Rightarrow> Inr (ws\<lparr>heap := (heap ws)[r := d]\<rparr>))"

text \<open>
  \<open>self._wallets[wallet_id]\<close>: \<open>KeyError\<close> for an unknown id. A reference outside the
  heap cannot exist in Python; the model answers \<open>KeyError\<close> there too, and the
  well-formedness predicate \<open>wf_vault\<close> excludes it.
\<close>

definition wallet_record :: "wallet_service \<Rightarrow> string \<Rightarrow> exn + pydict" where
  "wallet_record ws wid =
     (case wallets ws wid of
        None \<Rightarrow> Inl (KeyError wid)
      | Some r \<Rightarrow> if r < length (heap ws) then Inr (heap ws ! r) else Inl (KeyError wid))"

definition wf_vault :: "wallet_service \<Rightarrow> bool" where
  "wf_vault ws = (\<forall>wid r. wallets ws wid = Some r \<longrightarrow> r < length (heap ws))"

definition decrypt_field :: "env \<Rightarrow> pydict \<Rightarrow> string \<Rightarrow> exn + string" where
  "decrypt_field e d k =
     (case dict_getitem d k of
        Inl x \<Rightarrow> Inl x
      | Inr (PStr c) \<Rightarrow> fernet_decrypt e c
      | Inr (PBool _) \<Rightarrow> Inl TypeError)"

definition bool_field :: "pydict \<Rightarrow> string \<Rightarrow> exn + bool" where
  "bool_field d k =
     (case dict_getitem d k of
        Inl x \<Rightarrow> Inl x
      | Inr (PBool b) \<Rightarrow> Inr b
      | Inr (PStr s) \<Rightarrow> Inr (s \<noteq> []))"

text \<open>
  The three lines that \<open>start\<close>, \<open>_execute_strategy\<close>, \<open>get_wallet_balance\<close> and
  \<open>_get_binance_client_from_wallet\<close> all repeat:
  \<^verbatim>\<open>api_key = _decrypt(_wallets[id]["api_key"])\<close>,
  \<^verbatim>\<open>api_secret = _decrypt(_wallets[id]["api_secret"])\<close>,
  \<^verbatim>\<open>use_testnet = _wallets[id]["use_testnet"]\<close>, in this order.
\<close>

definition wallet_credentials :: "env \<Rightarrow> wallet_service \<Rightarrow> string \<Rightarrow> exn + (string \<times> string \<times> bool)" where
  "wallet_credentials e ws wid =
     (case wallet_record ws wid of
        Inl x \<Rightarrow> Inl x
      | Inr d \<Rightarrow>
          (case decrypt_field e d ''api_key'' of
             Inl x \<Rightarrow> Inl x
           | Inr k \<Rightarrow>
               (case decrypt_field e d ''api_secret'' of
                  Inl x \<Rightarrow> Inl x
                | Inr s \<Rightarrow>
                    (case bool_field d ''use_testnet'' of
                       Inl x \<Rightarrow> Inl x
                     | Inr t \<Rightarrow> Inr (k, s, t)))))"

text \<open>The credentials of a wallet, then the client for them.\<close>

definition wallet_client :: "env \<Rightarrow> wallet_service \<Rightarrow> string \<Rightarrow> exn + client" where
  "wallet_client e ws wid =
     (case wallet_credentials e ws wid of
        Inl x \<Rightarrow> Inl x
      | Inr (k, s, t) \<Rightarrow> get_binance_client e k s t)"

subsection \<open>connect\_wallet\<close>

definition wallet_display_name :: "string option \<Rightarrow> string \<Rightarrow> string" where
  "wallet_display_name wallet_name wid =
     (case wallet_name of
        Some n \<Rightarrow> if n \<noteq> [] then n else ''Wallet-'' @ take 6 wid
      | None \<Rightarrow> ''Wallet-'' @ take 6 wid)"

definition new_wallet_dict :: "env \<Rightarrow> string \<Rightarrow> string \<Rightarrow> string option \<Rightarrow> bool \<Rightarrow> pydict" where
  "new_wallet_dict e api_key api_secret wallet_name use_testnet =
     [(''api_key'', PStr (fernet_encrypt e api_key)),
      (''api_secret'', PStr (fernet_encrypt e api_secret)),
      (''name'', PStr (wallet_display_name wallet_name (wallet_id_of api_key))),
      (''use_testnet'', PBool use_testnet),
      (''connected_at'', PStr (utcnow e))]"

text \<open>
  The first two statements of \<open>connect_wallet\<close>: the client for the credentials, then
  \<open>client.test_connection()\<close>.
\<close>

definition connection_probe :: "env \<Rightarrow> string \<Rightarrow> string \<Rightarrow> bool \<Rightarrow> exn + bool" where
  "connection_probe e api_key api_secret use_testnet =
     (case get_binance_client e api_key api_secret use_testnet of
        Inl x \<Rightarrow> Inl x
      | Inr c \<Rightarrow> test_connection e c)"

definition connect_wallet ::
  "env \<Rightarrow> string \<Rightarrow> string \<Rightarrow> string option \<Rightarrow> bool \<Rightarrow> wallet_service
     \<Rightarrow> (exn + bool) \<times> wallet_service" where
  "connect_wallet e api_key api_secret wallet_name use_testnet ws =
     (case connection_probe e api_key api_secret use_testnet of
        Inl x \<Rightarrow> (Inl (BinanceAPIException (Wallet_connect_error x)), ws)
      | Inr is_connected \<Rightarrow>
          if is_connected
          then (Inr True,
                ws\<lparr>wallets := (wallets ws)(wallet_id_of api_key \<mapsto> length (heap ws)),
                   heap := heap ws @ [new_wallet_dict e api_key api_secret wallet_name use_testnet]\<rparr>)
          else (Inr False, ws))"

subsection \<open>get\_wallet\<close>

text \<open>
  \<open>wallet_info = self._wallets[wallet_id].copy()\<close> allocates a new dict with the same
  items; the two \<open>pop\<close>s update that new object in place; the reference to it is
  returned. A record without one of the two keys makes \<open>pop\<close> raise \<open>KeyError\<close>.
\<close>

definition get_wallet :: "wallet_service \<Rightarrow> string \<Rightarrow> (exn + nat option) \<times> wallet_service" where
  "get_wallet ws wid =
     (case wallets ws wid of
        None \<Rightarrow> (Inr None, ws)
      | Some r \<Rightarrow>
          (let wallet_info = length (heap ws);
               ws1 = ws\<lparr>heap := heap ws @ [heap ws ! r]\<rparr>
           in (case pop_at ws1 wallet_info ''api_key'' of
                 Inl x \<Rightarrow> (Inl x, ws1)
               | Inr ws2 \<Rightarrow>
                   (case pop_at ws2 wallet_info ''api_secret'' of
                      Inl x \<Rightarrow> (Inl x, ws2)
                    | Inr ws3 \<Rightarrow> (Inr (Some wallet_info), ws3)))))"

text \<open>Any number of \<open>get_wallet\<close> calls, one after the other, results dropped.\<close>

fun get_wallet_calls :: "wallet_service \<Rightarrow> string list \<Rightarrow> wallet_service" where
  "get_wallet_calls ws [] = ws"
| "get_wallet_calls ws (wid # wids) = get_wallet_calls (snd (get_wallet ws wid)) wids"

text \<open>
  The truth value of what \<open>get_wallet\<close> returned, as \<open>if not get_wallet(id)\<close> tests
  it: \<open>None\<close> and the empty dict are false.
\<close>

definition wallet_found :: "wallet_service \<Rightarrow> nat option \<Rightarrow> bool" where
  "wallet_found ws res = (case res of None \<Rightarrow> False | Some r \<Rightarrow> heap ws ! r \<noteq> [])"

subsection \<open>get\_wallet\_balance\<close>

record AssetBalance =
  asset :: string
  free :: real
  locked :: real

text \<open>
  The loop over \<open>account_info["balances"]\<close>: \<open>float()\<close> of a malformed amount raises
  \<open>ValueError\<close> and ends the loop.
\<close>

fun collect_balances :: "env \<Rightarrow> balance_row list \<Rightarrow> exn + AssetBalance list" where
  "collect_balances e [] = Inr []"
| "collect_balances e (b # bs) =
     (case py_float e (bal_free b) of
        None \<Rightarrow> Inl (ValueError (Invalid_float (bal_free b)))
      | Some f \<Rightarrow>
          (case py_float e (bal_locked b) of
             None \<Rightarrow> Inl (ValueError (Invalid_float (bal_locked b)))
           | Some l \<Rightarrow>
               (case collect_balances e bs of
                  Inl x \<Rightarrow> Inl x
                | Inr rest \<Rightarrow>
                    if f > 0 \<or> l > 0
                    then Inr (\<lparr>asset = bal_asset b, free = f, locked = l\<rparr> # rest)
                    else Inr rest)))"

definition get_wallet_balance :: "env \<Rightarrow> wallet_service \<Rightarrow> string \<Rightarrow> exn + AssetBalance list" where
  "get_wallet_balance e ws wid =
     (if wallets ws wid = None then Inl (ValueError Wallet_not_connected)
      else (case (case wallet_client e ws wid of
                    Inl x \<Rightarrow> Inl x
                  | Inr c \<Rightarrow>
                      (case lib_get_account e c of
                         Inl x \<Rightarrow> Inl x
                       | Inr rows \<Rightarrow> collect_balances e rows)) of
              Inl x \<Rightarrow> Inl (BinanceAPIException (Wallet_balance_error x))
            | Inr balances \<Rightarrow> Inr balances))"

section \<open>bot\_service.py\<close>

datatype BotStatus = STOPPED | RUNNING | ERROR

datatype BotStrategy = SIMPLE | GRID

record BotConfig =
  symbol :: string
  interval_seconds :: int
  max_amount :: real
  wallet_id :: string
  strategy :: BotStrategy
  buy_threshold :: "real option"
  sell_threshold :: "real option"

text \<open>
  The texts written to \<open>_state["last_operation"]\<close> and \<open>_state["error_message"]\<close>, one
  constructor for each f-string of the source with the values it formats.
\<close>

datatype operation =
    Bot_started string           \<comment> \<open>"Bot iniciado para {symbol}"\<close>
  | Stopped_by_user              \<comment> \<open>"Bot parado pelo usuario"\<close>
  | Monitoring real              \<comment> \<open>"Monitorando preco: {current_price}"\<close>
  | Strategy_error exn           \<comment> \<open>"Erro ao executar estrategia: {e}"\<close>
  | Analysis real real           \<comment> \<open>"Analise: Preco atual {current}, variacao {pct}%"\<close>
  | Buy_signal real real real    \<comment> \<open>"Sinal de compra detectado: Preco caiu {abs(pct)}% (de {last} para {current})"\<close>
  | Sell_signal real real real   \<comment> \<open>"Sinal de venda detectado: Preco subiu {pct}% (de {last} para {current})"\<close>
  | Grid_analysis real real      \<comment> \<open>"Analise grid trading: Preco atual {current}, mudanca de {pct}%"\<close>

datatype error_text =
    Config_undefined             \<comment> \<open>"Configuracao do bot nao definida"\<close>
  | Binance_api_error exn        \<comment> \<open>"Erro na API da Binance: {e}"\<close>
  | Execution_error exn          \<comment> \<open>"Erro durante a execucao do bot: {e}"\<close>

text \<open>
  The background thread: \<open>None\<close> before the first start, \<open>Some Alive\<close> while
  \<open>_run_bot_loop\<close> has not returned, \<open>Some Finished\<close> afterwards.
\<close>

datatype thread = Alive | Finished

record bot_service =
  bot_thread :: "thread option"
  stop_event :: bool
  status :: BotStatus
  config :: "BotConfig option"
  start_time :: "string option"
  last_price :: "real option"
  last_operation :: "operation option"
  error_message :: "error_text option"
  st_wallet_id :: "string option"
  st_symbol :: "string option"
  price_history :: "(real \<times> string) list"

definition new_bot_service :: bot_service where
  "new_bot_service =
     \<lparr>bot_thread = None, stop_event = False, status = STOPPED, config = None,
      start_time = None, last_price = None, last_operation = None, error_message = None,
      st_wallet_id = None, st_symbol = None, price_history = []\<rparr>"

subsection \<open>start\<close>

text \<open>
  The price probe of \<open>start\<close> and the price fetch of \<open>_execute_strategy\<close>: the
  credentials of the wallet, the client, \<open>client.get_price(symbol)\<close>.
\<close>

definition fetch_price :: "env \<Rightarrow> wallet_service \<Rightarrow> string \<Rightarrow> string \<Rightarrow> exn + real" where
  "fetch_price e ws wid symb =
     (case wallet_client e ws wid of
        Inl x \<Rightarrow> Inl x
      | Inr c \<Rightarrow> get_price e c symb)"

definition start ::
  "env \<Rightarrow> BotConfig \<Rightarrow> wallet_service \<times> bot_service
     \<Rightarrow> (exn + bool) \<times> wallet_service \<times> bot_service" where
  "start e cfg s =
     (case s of (ws, b) \<Rightarrow>
        if bot_thread b = Some Alive then (Inl (ValueError Bot_already_running), ws, b)
        else (case get_wallet ws (wallet_id cfg) of
                (Inl x, ws1) \<Rightarrow> (Inl x, ws1, b)
              | (Inr res, ws1) \<Rightarrow>
                  if \<not> wallet_found ws1 res
                  then (Inl (ValueError (Wallet_id_not_found (wallet_id cfg))), ws1, b)
                  else (case fetch_price e ws1 (wallet_id cfg) (symbol cfg) of
                          Inl x \<Rightarrow> (Inl (ValueError (Invalid_symbol_or_connection x)), ws1, b)
                        | Inr price \<Rightarrow>
                            (Inr True, ws1,
                             b\<lparr>config := Some cfg,
                               start_time := Some (utcnow e),
                               last_price := Some price,
                               st_wallet_id := Some (wallet_id cfg),
                               st_symbol := Some (symbol cfg),
                               price_history := [],
                               error_message := None,
                               last_operation := Some (Bot_started (symbol cfg)),
                               stop_event := False,
                               bot_thread := Some Alive,
                               status := RUNNING\<rparr>))))"

subsection \<open>The strategies\<close>

text \<open>\<open>threshold or default\<close>: Python's \<open>or\<close> takes the default for \<open>None\<close> and for \<open>0.0\<close>.\<close>

definition threshold_or :: "real option \<Rightarrow> real \<Rightarrow> real" where
  "threshold_or t d = (case t of None \<Rightarrow> d | Some v \<Rightarrow> if v = 0 then d else v)"

text \<open>
  The division by \<open>last_price\<close> raises \<open>ZeroDivisionError\<close> at zero, before the
  strategy has written anything.
\<close>

definition execute_simple_strategy ::
  "BotConfig \<Rightarrow> real \<Rightarrow> real \<Rightarrow> bot_service \<Rightarrow> exn + bot_service" where
  "execute_simple_strategy cfg last_p current_price b =
     (let bt = threshold_or (buy_threshold cfg) 0.5;
          st = threshold_or (sell_threshold cfg) 1.0
      in if last_p = 0 then Inl ZeroDivisionError
         else (let price_change_percent = ((current_price - last_p) / last_p) * 100;
                   b1 = b\<lparr>last_operation := Some (Analysis current_price price_change_percent)\<rparr>
               in if price_change_percent \<le> - bt
                  then Inr (b1\<lparr>last_operation :=
                              Some (Buy_signal \<bar>price_change_percent\<bar> last_p current_price)\<rparr>)
                  else if price_change_percent \<ge> st
                  then Inr (b1\<lparr>last_operation :=
                              Some (Sell_signal price_change_percent last_p current_price)\<rparr>)
                  else Inr b1))"

definition execute_grid_strategy :: "real \<Rightarrow> real \<Rightarrow> bot_service \<Rightarrow> exn + bot_service" where
  "execute_grid_strategy last_p current_price b =
     (if last_p = 0 then Inl ZeroDivisionError
      else Inr (b\<lparr>last_operation :=
                  Some (Grid_analysis current_price (((current_price - last_p) / last_p) * 100))\<rparr>))"

subsection \<open>\_execute\_strategy\<close>

text \<open>\<open>history.append(sample)\<close>, then \<open>history.pop(0)\<close> if it holds more than 100.\<close>

definition push_sample :: "'a \<Rightarrow> 'a list \<Rightarrow> 'a list" where
  "push_sample x h = (let h1 = h @ [x] in if length h1 > 100 then tl h1 else h1)"

text \<open>
  The body of \<open>_execute_strategy\<close>. Its \<open>except Exception\<close> catches whatever the
  \<open>try\<close> block raises and writes it to \<open>last_operation\<close>: the state keeps what the
  block had written before the exception. \<open>if not last_price\<close> holds for \<open>None\<close>
  and for \<open>0.0\<close>. The result type says that the function may raise; the definition
  never does.
\<close>

definition execute_strategy :: "env \<Rightarrow> wallet_service \<Rightarrow> bot_service \<Rightarrow> exn + bot_service" where
  "execute_strategy e ws b =
     (case config b of
        None \<Rightarrow> Inr b
      | Some cfg \<Rightarrow>
          (case fetch_price e ws (wallet_id cfg) (symbol cfg) of
             Inl x \<Rightarrow> Inr (b\<lparr>last_operation := Some (Strategy_error x)\<rparr>)
           | Inr current_price \<Rightarrow>
               (let b1 = b\<lparr>price_history :=
                              push_sample (current_price, utcnow e) (price_history b),
                            last_price := Some current_price\<rparr>;
                    monitoring = b1\<lparr>last_operation := Some (Monitoring current_price)\<rparr>
                in (case last_price b of
                      None \<Rightarrow> Inr monitoring
                    | Some last_p \<Rightarrow>
                        if last_p = 0 then Inr monitoring
                        else (case (case strategy cfg of
                                      SIMPLE \<Rightarrow> execute_simple_strategy cfg last_p current_price b1
                                    | GRID \<Rightarrow> execute_grid_strategy last_p current_price b1) of
                                Inl x \<Rightarrow> Inr (b1\<lparr>last_operation := Some (Strategy_error x)\<rparr>)
                              | Inr b2 \<Rightarrow> Inr b2)))))"

subsection \<open>\_run\_bot\_loop\<close>

text \<open>
  One pass through the body of the \<open>while\<close> loop, with the flag "the loop breaks".
  The two \<open>except\<close> clauses of the loop set \<open>ERROR\<close> and break. (The outermost
  \<open>except\<close> of \<open>_run_bot_loop\<close> would catch an exception raised by these handlers
  themselves, which assign two fields and raise nothing.)
\<close>

definition loop_iteration :: "env \<Rightarrow> wallet_service \<Rightarrow> bot_service \<Rightarrow> bool \<times> bot_service" where
  "loop_iteration e ws b =
     (case config b of
        None \<Rightarrow> (True, b\<lparr>error_message := Some Config_undefined, status := ERROR\<rparr>)
      | Some cfg \<Rightarrow>
          (case execute_strategy e ws b of
             Inr b1 \<Rightarrow> (False, b1)
           | Inl (BinanceAPIException m) \<Rightarrow>
               (True, b\<lparr>error_message := Some (Binance_api_error (BinanceAPIException m)),
                        status := ERROR\<rparr>)
           | Inl x \<Rightarrow>
               (True, b\<lparr>error_message := Some (Execution_error x), status := ERROR\<rparr>)))"

text \<open>The \<open>finally\<close> clause, after which the thread is over.\<close>

definition loop_exit :: "bot_service \<Rightarrow> bot_service" where
  "loop_exit b =
     b\<lparr>status := (if status b \<noteq> STOPPED then ERROR else status b),
       bot_thread := Some Finished\<rparr>"

text \<open>
  One turn of the thread: the test of the \<open>while\<close>, then the body. A thread that is
  not alive does nothing. After a pass that does not break the thread waits for the
  interval (or for the stop event) and is ready for its next turn.
\<close>

definition loop_step :: "env \<Rightarrow> wallet_service \<Rightarrow> bot_service \<Rightarrow> bot_service" where
  "loop_step e ws b =
     (if bot_thread b \<noteq> Some Alive then b
      else if stop_event b then loop_exit b
      else (case loop_iteration e ws b of
              (True, b1) \<Rightarrow> loop_exit b1
            | (False, b1) \<Rightarrow> b1))"

text \<open>
  The loop, for as many turns as there are answers of the world; the thread is still
  alive at the end when neither a break nor the stop event ended it.
\<close>

fun run_bot_loop :: "env list \<Rightarrow> wallet_service \<Rightarrow> bot_service \<Rightarrow> bot_service" where
  "run_bot_loop [] ws b = b"
| "run_bot_loop (e # es) ws b = run_bot_loop es ws (loop_step e ws b)"

subsection \<open>stop\<close>

text \<open>
  \<open>stop\<close> sets the event and joins the thread for at most 30 seconds. \<open>joined\<close>
  says whether the thread saw the event and ended within that time; if not, it is
  still alive afterwards and ends at its next turn.
\<close>

definition stop :: "bool \<Rightarrow> bot_service \<Rightarrow> bool \<times> bot_service" where
  "stop joined b =
     (if bot_thread b \<noteq> Some Alive then (False, b)
      else (let b1 = b\<lparr>stop_event := True\<rparr>;
                b2 = (if joined then loop_exit b1 else b1)
            in (True, b2\<lparr>status := STOPPED, last_operation := Some Stopped_by_user\<rparr>)))"

subsection \<open>The states the services can reach\<close>

datatype event =
    Ev_connect env string string "string option" bool
  | Ev_get_wallet string
  | Ev_start env BotConfig
  | Ev_stop bool
  | Ev_loop env

fun step :: "wallet_service \<times> bot_service \<Rightarrow> event \<Rightarrow> wallet_service \<times> bot_service" where
  "step (ws, b) (Ev_connect e k s n t) = (snd (connect_wallet e k s n t ws), b)"
| "step (ws, b) (Ev_get_wallet wid) = (snd (get_wallet ws wid), b)"
| "step (ws, b) (Ev_start e cfg) = snd (start e cfg (ws, b))"
| "step (ws, b) (Ev_stop joined) = (ws, snd (stop joined b))"
| "step (ws, b) (Ev_loop e) = (ws, loop_step e ws b)"

inductive reachable :: "wallet_service \<times> bot_service \<Rightarrow> bool" where
  reachable_init: "reachable (new_wallet_service, new_bot_service)"
| reachable_step: "reachable s \<Longrightarrow> reachable (step s ev)"

subsection \<open>The signal of an operation text\<close>

text \<open>
  The bot places no order: its signal is the text it writes to \<open>last_operation\<close>.
  \<open>signal_of\<close> reads the signal off that text.
\<close>

datatype Signal = Signal_NONE | Signal_BUY | Signal_SELL

fun signal_of :: "operation option \<Rightarrow> Signal" where
  "signal_of (Some (Buy_signal _ _ _)) = Signal_BUY"
| "signal_of (Some (Sell_signal _ _ _)) = Signal_SELL"
| "signal_of _ = Signal_NONE"

section \<open>trading\_service.py\<close>

datatype OrderSide = BUY | SELL

datatype OrderType = MARKET | LIMIT

datatype OrderStatus = NEW | PARTIALLY_FILLED | FILLED | CANCELED | REJECTED | EXPIRED

text \<open>
  \<open>str(order_data.get("orderId"))\<close> is the decimal text of the id, \<open>"None"\<close> for a
  missing key, and the fallback's default \<open>"unknown"\<close>. A time text is either
  \<open>datetime.fromtimestamp(ms / 1000).isoformat()\<close> or the clock's \<open>utcnow\<close>.
\<close>

datatype order_id_text = Id_of_int int | Id_None | Id_unknown

datatype time_text = Iso_of_millis int | Iso_now string

record OrderResponse =
  order_id :: order_id_text
  r_symbol :: string
  side :: OrderSide
  order_type :: OrderType
  order_status :: OrderStatus
  quantity :: real
  price :: "real option"
  executed_quantity :: real
  cumulative_quote_quantity :: real
  created_at :: time_text
  updated_at :: "time_text option"

text \<open>Sequencing of steps that may raise.\<close>

definition and_then :: "exn + 'a \<Rightarrow> ('a \<Rightarrow> exn + 'b) \<Rightarrow> exn + 'b" where
  "and_then r f = (case r of Inl x \<Rightarrow> Inl x | Inr v \<Rightarrow> f v)"

definition shown :: "string option \<Rightarrow> string" where
  "shown v = (case v of None \<Rightarrow> ''None'' | Some s \<Rightarrow> s)"

definition OrderSide_of :: "string option \<Rightarrow> exn + OrderSide" where
  "OrderSide_of v =
     (if v = Some ''BUY'' then Inr BUY
      else if v = Some ''SELL'' then Inr SELL
      else Inl (ValueError (Invalid_enum_value (shown v))))"

definition OrderType_of :: "string option \<Rightarrow> exn + OrderType" where
  "OrderType_of v =
     (if v = Some ''MARKET'' then Inr MARKET
      else if v = Some ''LIMIT'' then Inr LIMIT
      else Inl (ValueError (Invalid_enum_value (shown v))))"

definition OrderStatus_of :: "string option \<Rightarrow> exn + OrderStatus" where
  "OrderStatus_of v =
     (if v = Some ''NEW'' then Inr NEW
      else if v = Some ''PARTIALLY_FILLED'' then Inr PARTIALLY_FILLED
      else if v = Some ''FILLED'' then Inr FILLED
      else if v = Some ''CANCELED'' then Inr CANCELED
      else if v = Some ''REJECTED'' then Inr REJECTED
      else if v = Some ''EXPIRED'' then Inr EXPIRED
      else Inl (ValueError (Invalid_enum_value (shown v))))"

text \<open>\<open>float(x)\<close> for a text \<open>x\<close>.\<close>

definition float_of_text :: "env \<Rightarrow> string \<Rightarrow> exn + real" where
  "float_of_text e s =
     (case py_float e s of None \<Rightarrow> Inl (ValueError (Invalid_float s)) | Some v \<Rightarrow> Inr v)"

text \<open>\<open>float(order_data.get(key))\<close>: \<open>float(None)\<close> raises \<open>TypeError\<close>.\<close>

definition float_required :: "env \<Rightarrow> string option \<Rightarrow> exn + real" where
  "float_required e v = (case v of None \<Rightarrow> Inl TypeError | Some s \<Rightarrow> float_of_text e s)"

text \<open>\<open>float(order_data.get(key, 0))\<close>: a missing key gives \<open>0.0\<close>.\<close>

definition float_default0 :: "env \<Rightarrow> string option \<Rightarrow> exn + real" where
  "float_default0 e v = (case v of None \<Rightarrow> Inr 0 | Some s \<Rightarrow> float_of_text e s)"

text \<open>
  \<open>float(order_data.get("price", 0)) if order_data.get("price") else None\<close>: a missing
  key and the empty text are false, every other text is converted.
\<close>

definition price_of :: "env \<Rightarrow> string option \<Rightarrow> exn + real option" where
  "price_of e v =
     (case v of
        None \<Rightarrow> Inr None
      | Some s \<Rightarrow> if s = [] then Inr None else and_then (float_of_text e s) (\<lambda>p. Inr (Some p)))"

text \<open>pydantic's check of the required field \<open>symbol: str\<close>.\<close>

definition symbol_required :: "string option \<Rightarrow> exn + string" where
  "symbol_required v = (case v of None \<Rightarrow> Inl ValidationError | Some s \<Rightarrow> Inr s)"

definition created_text :: "env \<Rightarrow> int option \<Rightarrow> time_text" where
  "created_text e t =
     (case t of None \<Rightarrow> Iso_now (utcnow e)
      | Some ms \<Rightarrow> if ms = 0 then Iso_now (utcnow e) else Iso_of_millis ms)"

definition updated_text :: "int option \<Rightarrow> time_text option" where
  "updated_text t =
     (case t of None \<Rightarrow> None | Some ms \<Rightarrow> if ms = 0 then None else Some (Iso_of_millis ms))"

text \<open>The \<open>try\<close> block of \<open>_create_order_response\<close>.\<close>

definition order_response_mapped :: "env \<Rightarrow> order_data \<Rightarrow> exn + OrderResponse" where
  "order_response_mapped e od =
     and_then (symbol_required (od_symbol od)) (\<lambda>sy.
     and_then (OrderSide_of (od_side od)) (\<lambda>sd.
     and_then (OrderType_of (od_type od)) (\<lambda>ty.
     and_then (OrderStatus_of (od_status od)) (\<lambda>stt.
     and_then (float_required e (od_origQty od)) (\<lambda>q.
     and_then (price_of e (od_price od)) (\<lambda>pr.
     and_then (float_default0 e (od_executedQty od)) (\<lambda>ex.
     and_then (float_default0 e (od_cummulativeQuoteQty od)) (\<lambda>cq.
       Inr \<lparr>order_id = (case od_orderId od of None \<Rightarrow> Id_None | Some i \<Rightarrow> Id_of_int i),
            r_symbol = sy, side = sd, order_type = ty, order_status = stt,
            quantity = q, price = pr, executed_quantity = ex,
            cumulative_quote_quantity = cq,
            created_at = created_text e (od_time od),
            updated_at = updated_text (od_updateTime od)\<rparr>))))))))"

text \<open>
  The \<open>except\<close> block of \<open>_create_order_response\<close>: the basic answer, with the
  model's defaults for the fields it does not pass. It can itself raise, on the
  quantity.
\<close>

definition order_response_basic :: "env \<Rightarrow> order_data \<Rightarrow> exn + OrderResponse" where
  "order_response_basic e od =
     and_then (float_default0 e (od_origQty od)) (\<lambda>q.
       Inr \<lparr>order_id = (case od_orderId od of None \<Rightarrow> Id_unknown | Some i \<Rightarrow> Id_of_int i),
            r_symbol = (case od_symbol od of None \<Rightarrow> ''unknown'' | Some s \<Rightarrow> s),
            side = BUY, order_type = MARKET, order_status = NEW,
            quantity = q, price = None, executed_quantity = 0,
            cumulative_quote_quantity = 0,
            created_at = Iso_now (utcnow e), updated_at = None\<rparr>)"

definition create_order_response :: "env \<Rightarrow> order_data \<Rightarrow> exn + OrderResponse" where
  "create_order_response e od =
     (case order_response_mapped e od of
        Inr r \<Rightarrow> Inr r
      | Inl x \<Rightarrow> order_response_basic e od)"

text \<open>\<open>str(n)\<close> for an integer: its decimal text.\<close>

definition digit_char :: "nat \<Rightarrow> char" where
  "digit_char n = ''0123456789'' ! (n mod 10)"

function nat_str :: "nat \<Rightarrow> string" where
  "nat_str n = (if n < 10 then [digit_char n] else nat_str (n div 10) @ [digit_char (n mod 10)])"
  by pat_completeness auto
termination
  by (relation "measure id") auto

declare nat_str.simps [simp del]

definition int_str :: "int \<Rightarrow> string" where
  "int_str i = (if i < 0 then CHR ''-'' # nat_str (nat (- i)) else nat_str (nat i))"

text \<open>\<open>int(x)\<close> for a text \<open>x\<close>.\<close>

definition int_of_text :: "env \<Rightarrow> string \<Rightarrow> exn + int" where
  "int_of_text e s =
     (case py_int e s of None \<Rightarrow> Inl (ValueError (Invalid_int s)) | Some i \<Rightarrow> Inr i)"

text \<open>The ledger \<open>_orders\<close>, a dict keyed by the text of the order id.\<close>

record trading_service =
  orders :: "string \<rightharpoonup> order_data"

definition get_binance_client_from_wallet ::
  "env \<Rightarrow> wallet_service \<Rightarrow> string \<Rightarrow> (exn + client) \<times> wallet_service" where
  "get_binance_client_from_wallet e ws wid =
     (case get_wallet ws wid of
        (Inl x, ws1) \<Rightarrow> (Inl x, ws1)
      | (Inr res, ws1) \<Rightarrow>
          if \<not> wallet_found ws1 res
          then (Inl (NotFoundException (Wallet_id_not_found wid)), ws1)
          else (wallet_client e ws1 wid, ws1))"

text \<open>The two calls of \<open>client.client.create_order\<close>: with a price, and without.\<close>

definition order_request :: "string \<Rightarrow> string \<Rightarrow> real \<Rightarrow> real option \<Rightarrow> order_params" where
  "order_request side_text symb qty pr =
     (case pr of
        Some p \<Rightarrow>
          \<lparr>p_symbol = symb, p_side = side_text, p_type = ''LIMIT'',
           p_timeInForce = Some ''GTC'', p_quantity = qty, p_price = Some p\<rparr>
      | None \<Rightarrow>
          \<lparr>p_symbol = symb, p_side = side_text, p_type = ''MARKET'',
           p_timeInForce = None, p_quantity = qty, p_price = None\<rparr>)"

text \<open>
  \<open>place_buy_order\<close> and \<open>place_sell_order\<close> have the same body but for the side and
  the message of the exception they raise. The result holds, next to the answer and the
  two services, the requests that reached the exchange during the call.
\<close>

definition place_order ::
  "string \<Rightarrow> (exn \<Rightarrow> msg) \<Rightarrow> env \<Rightarrow> string \<Rightarrow> real \<Rightarrow> string \<Rightarrow> real option
     \<Rightarrow> wallet_service \<times> trading_service
     \<Rightarrow> (exn + OrderResponse) \<times> order_params list \<times> wallet_service \<times> trading_service" where
  "place_order side_text wrap e symb qty wid pr s =
     (case s of (ws, ts) \<Rightarrow>
        (case get_binance_client_from_wallet e ws wid of
           (Inl x, ws1) \<Rightarrow> (Inl (BinanceAPIException (wrap x)), [], ws1, ts)
         | (Inr c, ws1) \<Rightarrow>
             (let req = order_request side_text symb qty pr
              in (case lib_create_order e c req of
                    Inl x \<Rightarrow> (Inl (BinanceAPIException (wrap x)), [req], ws1, ts)
                  | Inr order_result \<Rightarrow>
                      (case od_orderId order_result of
                         None \<Rightarrow>
                           (Inl (BinanceAPIException (wrap (KeyError ''orderId''))), [req], ws1, ts)
                       | Some i \<Rightarrow>
                           (let ts1 = ts\<lparr>orders := (orders ts)(int_str i \<mapsto> order_result)\<rparr>
                            in (case create_order_response e order_result of
                                  Inl x \<Rightarrow> (Inl (BinanceAPIException (wrap x)), [req], ws1, ts1)
                                | Inr r \<Rightarrow> (Inr r, [req], ws1, ts1))))))))"

definition place_buy_order ::
  "env \<Rightarrow> string \<Rightarrow> real \<Rightarrow> string \<Rightarrow> real option \<Rightarrow> wallet_service \<times> trading_service
     \<Rightarrow> (exn + OrderResponse) \<times> order_params list \<times> wallet_service \<times> trading_service" where
  "place_buy_order = place_order ''BUY'' Buy_order_error"

definition place_sell_order ::
  "env \<Rightarrow> string \<Rightarrow> real \<Rightarrow> string \<Rightarrow> real option \<Rightarrow> wallet_service \<times> trading_service
     \<Rightarrow> (exn + OrderResponse) \<times> order_params list \<times> wallet_service \<times> trading_service" where
  "place_sell_order = place_order ''SELL'' Sell_order_error"

text \<open>
  \<open>get_order\<close> and \<open>cancel_order\<close> have the same body but for the call of the
  library and the message of the exception they raise: the client of the wallet, then
  \<open>int(order_id)\<close> and the call, then the answer is stored under the \<open>order_id\<close>
  as the caller gave it and mapped.
\<close>

definition order_call ::
  "(exn \<Rightarrow> msg) \<Rightarrow> (client \<Rightarrow> string \<Rightarrow> int \<Rightarrow> exn + order_data) \<Rightarrow> env \<Rightarrow> string \<Rightarrow> string
     \<Rightarrow> string \<Rightarrow> wallet_service \<times> trading_service
     \<Rightarrow> (exn + OrderResponse) \<times> wallet_service \<times> trading_service" where
  "order_call wrap call e order_id_arg wid symb s =
     (case s of (ws, ts) \<Rightarrow>
        (case get_binance_client_from_wallet e ws wid of
           (Inl x, ws1) \<Rightarrow> (Inl (BinanceAPIException (wrap x)), ws1, ts)
         | (Inr c, ws1) \<Rightarrow>
             (case and_then (int_of_text e order_id_arg) (call c symb) of
                Inl x \<Rightarrow> (Inl (BinanceAPIException (wrap x)), ws1, ts)
              | Inr order_info \<Rightarrow>
                  (let ts1 = ts\<lparr>orders := (orders ts)(order_id_arg \<mapsto> order_info)\<rparr>
                   in (case create_order_response e order_info of
                         Inl x \<Rightarrow> (Inl (BinanceAPIException (wrap x)), ws1, ts1)
                       | Inr r \<Rightarrow> (Inr r, ws1, ts1))))))"

definition get_order ::
  "env \<Rightarrow> string \<Rightarrow> string \<Rightarrow> string \<Rightarrow> wallet_service \<times> trading_service
     \<Rightarrow> (exn + OrderResponse) \<times> wallet_service \<times> trading_service" where
  "get_order e = order_call Get_order_error (lib_get_order e) e"

definition cancel_order ::
  "env \<Rightarrow> string \<Rightarrow> string \<Rightarrow> string \<Rightarrow> wallet_service \<times> trading_service
     \<Rightarrow> (exn + OrderResponse) \<times> wallet_service \<times> trading_service" where
  "cancel_order e = order_call Cancel_order_error (lib_cancel_order e) e"

text \<open>
  \<open>get_orders\<close> without a symbol asks for three common pairs and skips a pair whose
  request raises.
\<close>

definition common_symbols :: "string list" where
  "common_symbols = [''BTCUSDT'', ''ETHUSDT'', ''BNBUSDT'']"

fun fetch_symbols :: "env \<Rightarrow> client \<Rightarrow> string list \<Rightarrow> order_data list" where
  "fetch_symbols e c [] = []"
| "fetch_symbols e c (sy # sys) =
     (case lib_get_all_orders e c sy of
        Inl x \<Rightarrow> fetch_symbols e c sys
      | Inr found \<Rightarrow> found @ fetch_symbols e c sys)"

text \<open>The loop that stores every order: it stops at an order without \<open>orderId\<close>.\<close>

fun store_orders :: "order_data list \<Rightarrow> trading_service \<Rightarrow> exn option \<times> trading_service" where
  "store_orders [] ts = (None, ts)"
| "store_orders (od # ods) ts =
     (case od_orderId od of
        None \<Rightarrow> (Some (KeyError ''orderId''), ts)
      | Some i \<Rightarrow> store_orders ods (ts\<lparr>orders := (orders ts)(int_str i \<mapsto> od)\<rparr>))"

fun order_responses :: "env \<Rightarrow> order_data list \<Rightarrow> exn + OrderResponse list" where
  "order_responses e [] = Inr []"
| "order_responses e (od # ods) =
     and_then (create_order_response e od) (\<lambda>r.
     and_then (order_responses e ods) (\<lambda>rs. Inr (r # rs)))"

text \<open>
  \<open>sorted(orders, key=lambda x: x.get('time', 0), reverse=True)\<close> is a stable sort,
  largest time first: \<open>sort_key\<close> on the negated time.
\<close>

definition newest_first :: "order_data list \<Rightarrow> order_data list" where
  "newest_first found =
     sort_key (\<lambda>od. - (case od_time od of None \<Rightarrow> 0 | Some t \<Rightarrow> t)) found"

definition get_orders ::
  "env \<Rightarrow> string \<Rightarrow> string option \<Rightarrow> wallet_service \<times> trading_service
     \<Rightarrow> (exn + OrderResponse list) \<times> wallet_service \<times> trading_service" where
  "get_orders e wid symb s =
     (case s of (ws, ts) \<Rightarrow>
        (case get_binance_client_from_wallet e ws wid of
           (Inl x, ws1) \<Rightarrow> (Inl (BinanceAPIException (Get_orders_error x)), ws1, ts)
         | (Inr c, ws1) \<Rightarrow>
             (case (case symb of
                      Some sy \<Rightarrow>
                        if sy \<noteq> [] then lib_get_all_orders e c sy
                        else Inr (fetch_symbols e c common_symbols)
                    | None \<Rightarrow> Inr (fetch_symbols e c common_symbols)) of
                Inl x \<Rightarrow> (Inl (BinanceAPIException (Get_orders_error x)), ws1, ts)
              | Inr found \<Rightarrow>
                  (case store_orders (newest_first found) ts of
                     (Some x, ts1) \<Rightarrow> (Inl (BinanceAPIException (Get_orders_error x)), ws1, ts1)
                   | (None, ts1) \<Rightarrow>
                       (case order_responses e (newest_first found) of
                          Inl x \<Rightarrow> (Inl (BinanceAPIException (Get_orders_error x)), ws1, ts1)
                        | Inr rs \<Rightarrow> (Inr rs, ws1, ts1))))))"

section \<open>Concrete worlds and inputs\<close>

text \<open>
  A world in which everything works: the cipher prefixes the plain text with a key
  mark and refuses a text without it, the exchange answers every ping, quotes the
  price 100 and echoes a placed order as \<open>NEW\<close>.
\<close>

definition example_float :: "string \<Rightarrow> real option" where
  "example_float s =
     (if s = ''1'' then Some 1
      else if s = ''10'' then Some 10
      else if s = ''0.00000000'' then Some 0
      else None)"

definition example_order :: "order_params \<Rightarrow> order_data" where
  "example_order rq =
     \<lparr>od_orderId = Some 1, od_symbol = Some (p_symbol rq), od_side = Some (p_side rq),
      od_type = Some (p_type rq), od_status = Some ''NEW'', od_origQty = Some ''1'',
      od_price = (case p_price rq of None \<Rightarrow> Some ''0.00000000'' | Some _ \<Rightarrow> Some ''10''),
      od_executedQty = Some ''0.00000000'', od_cummulativeQuoteQty = Some ''0.00000000'',
      od_time = None, od_updateTime = None\<rparr>"

definition example_env :: env where
  "example_env =
     \<lparr>settings_BINANCE_API_KEY = [], settings_BINANCE_API_SECRET = [],
      fernet_encrypt = (\<lambda>p. ''k1:'' @ p),
      fernet_decrypt = (\<lambda>c. if take 3 c = ''k1:'' then Inr (drop 3 c) else Inl InvalidToken),
      lib_Client = (\<lambda>k s t. None),
      lib_ping = (\<lambda>c. None),
      lib_get_symbol_ticker = (\<lambda>c sy. Inr 100),
      lib_get_account = (\<lambda>c. Inr []),
      lib_create_order = (\<lambda>c rq. Inr (example_order rq)),
      lib_get_order = (\<lambda>c sy i. Inl (BinanceLibException ''Order does not exist.'')),
      lib_get_all_orders = (\<lambda>c sy. Inr []),
      lib_cancel_order = (\<lambda>c sy i. Inl (BinanceLibException ''Unknown order sent.'')),
      py_float = example_float,
      py_int = (\<lambda>s. if s = ''1'' then Some 1 else None),
      utcnow = ''2024-01-01T00:00:00''\<rparr>"

text \<open>The same world after the process-wide key has changed: no stored text decrypts.\<close>

definition rotated_env :: env where
  "rotated_env = example_env\<lparr>fernet_decrypt := (\<lambda>c. Inl InvalidToken)\<rparr>"

text \<open>The same world with an exchange that refuses the ticker request.\<close>

definition failing_env :: env where
  "failing_env =
     example_env\<lparr>lib_get_symbol_ticker := (\<lambda>c sy. Inl (BinanceLibException ''Invalid symbol.''))\<rparr>"

text \<open>A vault with one wallet, as \<open>connect_wallet\<close> leaves it, and a configuration for it.\<close>

definition example_vault :: wallet_service where
  "example_vault =
     snd (connect_wallet example_env ''0123456789abcdef'' ''secret'' None True new_wallet_service)"

definition example_config :: BotConfig where
  "example_config =
     \<lparr>symbol = ''BTCUSDT'', interval_seconds = 60, max_amount = 10,
      wallet_id = ''ODlhYmNkZWY='', strategy = SIMPLE,
      buy_threshold = None, sell_threshold = None\<rparr>"

text \<open>The bot after a successful start in that world.\<close>

definition started_bot :: bot_service where
  "started_bot = snd (snd (start example_env example_config (example_vault, new_bot_service)))"

definition started_vault :: wallet_service where
  "started_vault = fst (snd (start example_env example_config (example_vault, new_bot_service)))"

text \<open>The same world with an exchange that refuses the account request.\<close>

definition account_failing_env :: env where
  "account_failing_env =
     example_env\<lparr>lib_get_account := (\<lambda>c. Inl (BinanceLibException ''Service unavailable.''))\<rparr>"

text \<open>The same world with an exchange that answers an order without its price.\<close>

definition no_price_env :: env where
  "no_price_env =
     example_env\<lparr>lib_create_order := (\<lambda>c rq. Inr ((example_order rq)\<lparr>od_price := None\<rparr>))\<rparr>"

definition new_trading_service :: trading_service where
  "new_trading_service = \<lparr>orders = Map.empty\<rparr>"

text \<open>The same world with the ticker at a given price.\<close>

definition priced_env :: "real \<Rightarrow> env" where
  "priced_env p = example_env\<lparr>lib_get_symbol_ticker := (\<lambda>c sy. Inr p)\<rparr>"

text \<open>The started bot after 100 turns of its loop, at the prices 1, 2, ..., 100.\<close>

definition full_bot :: bot_service where
  "full_bot = run_bot_loop (map priced_env (map real [1..<101])) started_vault started_bot"

section \<open>The vault under reads\<close>

lemma pop_at_wallets: "pop_at ws r k = Inr ws' \<Longrightarrow> wallets ws' = wallets ws"
  by (cases "dict_pop k (heap ws ! r)") (auto simp: pop_at_def)

lemma pop_at_length: "pop_at ws r k = Inr ws' \<Longrightarrow> length (heap ws') = length (heap ws)"
  by (cases "dict_pop k (heap ws ! r)") (auto simp: pop_at_def)

lemma pop_at_other: "pop_at ws r k = Inr ws' \<Longrightarrow> i \<noteq> r \<Longrightarrow> heap ws' ! i = heap ws ! i"
  by (cases "dict_pop k (heap ws ! r)") (auto simp: pop_at_def)

text \<open>get_wallet keeps the vault's map, never shrinks the heap, and keeps every old cell.\<close>

lemma get_wallet_frame:
  "wallets (snd (get_wallet ws wid)) = wallets ws
   \<and> length (heap ws) \<le> length (heap (snd (get_wallet ws wid)))
   \<and> (\<forall>r < length (heap ws). heap (snd (get_wallet ws wid)) ! r = heap ws ! r)"
proof (cases "wallets ws wid")
  case None
  then show ?thesis by (simp add: get_wallet_def)
next
  case (Some r0)
  define n where "n = length (heap ws)"
  define ws1 where "ws1 = ws\<lparr>heap := heap ws @ [heap ws ! r0]\<rparr>"
  have gw: "get_wallet ws wid =
      (case pop_at ws1 n ''api_key'' of
         Inl x \<Rightarrow> (Inl x, ws1)
       | Inr ws2 \<Rightarrow>
           (case pop_at ws2 n ''api_secret'' of
              Inl x \<Rightarrow> (Inl x, ws2)
            | Inr ws3 \<Rightarrow> (Inr (Some n), ws3)))"
    unfolding n_def ws1_def using Some by (simp add: get_wallet_def Let_def)
  have p1: "wallets ws1 = wallets ws \<and> length (heap ws1) = Suc n
       \<and> (\<forall>r < n. heap ws1 ! r = heap ws ! r)"
    by (simp add: ws1_def n_def nth_append)
  show ?thesis
  proof (cases "pop_at ws1 n ''api_key''")
    case (Inl x)
    with gw p1 show ?thesis by (simp add: n_def)
  next
    case (Inr ws2)
    have p2: "wallets ws2 = wallets ws \<and> length (heap ws2) = Suc n
       \<and> (\<forall>r < n. heap ws2 ! r = heap ws ! r)"
      using p1 pop_at_wallets [OF Inr] pop_at_length [OF Inr] pop_at_other [OF Inr]
      by simp
    show ?thesis
    proof (cases "pop_at ws2 n ''api_secret''")
      case (Inl x)
      with gw \<open>pop_at ws1 n ''api_key'' = Inr ws2\<close> p2 show ?thesis by (simp add: n_def)
    next
      case r3: (Inr ws3)
      have p3: "wallets ws3 = wallets ws \<and> length (heap ws3) = Suc n
         \<and> (\<forall>r < n. heap ws3 ! r = heap ws ! r)"
        using p2 pop_at_wallets [OF r3] pop_at_length [OF r3] pop_at_other [OF r3]
        by simp
      with gw \<open>pop_at ws1 n ''api_key'' = Inr ws2\<close> r3 show ?thesis by (simp add: n_def)
    qed
  qed
qed

lemma get_wallet_wallets: "wallets (snd (get_wallet ws wid)) = wallets ws"
  using get_wallet_frame [of ws wid] by simp

lemma get_wallet_wf: 
  assumes wf: "wf_vault ws" shows "wf_vault (snd (get_wallet ws wid))"
  unfolding wf_vault_def get_wallet_wallets
proof (intro allI impI)
  fix w r assume "wallets ws w = Some r"
  with wf have "r < length (heap ws)" by (simp add: wf_vault_def)
  with get_wallet_frame [of ws wid] show "r < length (heap (snd (get_wallet ws wid)))" by simp
qed

lemma get_wallet_record:
  assumes wf: "wf_vault ws"
  shows "wallet_record (snd (get_wallet ws wid)) w = wallet_record ws w"
proof (cases "wallets ws w")
  case None
  then show ?thesis by (simp add: wallet_record_def get_wallet_wallets)
next
  case (Some r)
  with wf have r: "r < length (heap ws)" by (simp add: wf_vault_def)
  with get_wallet_frame [of ws wid]
  have "r < length (heap (snd (get_wallet ws wid)))"
    and "heap (snd (get_wallet ws wid)) ! r = heap ws ! r" by simp_all
  with Some r show ?thesis
    by (simp add: wallet_record_def get_wallet_wallets)
qed

lemma wallet_credentials_cong:
  "wallet_record ws' w = wallet_record ws w \<Longrightarrow> wallet_credentials e ws' w = wallet_credentials e ws w"
  by (simp add: wallet_credentials_def)

lemma get_wallet_calls_wf: "wf_vault ws \<Longrightarrow> wf_vault (get_wallet_calls ws wids)"
  by (induction wids arbitrary: ws) (simp_all add: get_wallet_wf)

lemma get_wallet_calls_wallets: "wallets (get_wallet_calls ws wids) = wallets ws"
  by (induction wids arbitrary: ws) (simp_all add: get_wallet_wallets)

lemma get_wallet_calls_record:
  "wf_vault ws \<Longrightarrow> wallet_record (get_wallet_calls ws wids) w = wallet_record ws w"
  by (induction wids arbitrary: ws) (simp_all add: get_wallet_wf get_wallet_record)

section \<open>What one call of \_execute\_strategy does\<close>

lemma execute_simple_strategy_zero:
  "execute_simple_strategy cfg 0 c b = Inl ZeroDivisionError"
  by (simp add: execute_simple_strategy_def)

lemma execute_simple_strategy_nonzero:
  "l \<noteq> 0 \<Longrightarrow> \<exists>op. execute_simple_strategy cfg l c b = Inr (b\<lparr>last_operation := Some op\<rparr>)"
  unfolding execute_simple_strategy_def Let_def by (simp del: ex_simps) blast

lemma execute_grid_strategy_nonzero:
  "l \<noteq> 0 \<Longrightarrow> \<exists>op. execute_grid_strategy l c b = Inr (b\<lparr>last_operation := Some op\<rparr>)"
  unfolding execute_grid_strategy_def by simp blast

lemma execute_strategy_no_config:
  "config b = None \<Longrightarrow> execute_strategy e ws b = Inr b"
  by (simp add: execute_strategy_def)

lemma execute_strategy_fetch_failed:
  "config b = Some cfg \<Longrightarrow> fetch_price e ws (wallet_id cfg) (symbol cfg) = Inl x \<Longrightarrow>
     execute_strategy e ws b = Inr (b\<lparr>last_operation := Some (Strategy_error x)\<rparr>)"
  by (simp add: execute_strategy_def)

lemma execute_strategy_monitoring:
  "config b = Some cfg \<Longrightarrow> fetch_price e ws (wallet_id cfg) (symbol cfg) = Inr p \<Longrightarrow>
   last_price b = None \<or> last_price b = Some 0 \<Longrightarrow>
     execute_strategy e ws b =
       Inr (b\<lparr>price_history := push_sample (p, utcnow e) (price_history b),
              last_price := Some p, last_operation := Some (Monitoring p)\<rparr>)"
  by (auto simp: execute_strategy_def Let_def)

lemma execute_strategy_fetched:
  assumes cfg: "config b = Some cfg"
      and p: "fetch_price e ws (wallet_id cfg) (symbol cfg) = Inr p"
  shows "\<exists>op. execute_strategy e ws b =
           Inr (b\<lparr>price_history := push_sample (p, utcnow e) (price_history b),
                  last_price := Some p, last_operation := Some op\<rparr>)"
proof (cases "last_price b = None \<or> last_price b = Some 0")
  case True
  from execute_strategy_monitoring [OF cfg p True] show ?thesis by blast
next
  case False
  then obtain l where l: "last_price b = Some l" "l \<noteq> 0" by auto
  define b1 where "b1 = b\<lparr>price_history := push_sample (p, utcnow e) (price_history b),
                           last_price := Some p\<rparr>"
  have "\<exists>op. (case strategy cfg of
                 SIMPLE \<Rightarrow> execute_simple_strategy cfg l p b1
               | GRID \<Rightarrow> execute_grid_strategy l p b1) = Inr (b1\<lparr>last_operation := Some op\<rparr>)"
    using execute_simple_strategy_nonzero [OF l(2), of cfg p b1]
          execute_grid_strategy_nonzero [OF l(2), of p b1]
    by (cases "strategy cfg") simp_all
  then obtain op where
    "(case strategy cfg of
        SIMPLE \<Rightarrow> execute_simple_strategy cfg l p b1
      | GRID \<Rightarrow> execute_grid_strategy l p b1) = Inr (b1\<lparr>last_operation := Some op\<rparr>)" ..
  then have "execute_strategy e ws b = Inr (b1\<lparr>last_operation := Some op\<rparr>)"
    unfolding b1_def using cfg p l by (simp add: execute_strategy_def Let_def)
  then show ?thesis unfolding b1_def by blast
qed

text \<open>The result of \_execute\_strategy is never an exception.\<close>

lemma execute_strategy_never_raises: "\<exists>b'. execute_strategy e ws b = Inr b'"
proof (cases "config b")
  case None
  then show ?thesis by (simp add: execute_strategy_no_config)
next
  case (Some cfg)
  show ?thesis
  proof (cases "fetch_price e ws (wallet_id cfg) (symbol cfg)")
    case (Inl x)
    from execute_strategy_fetch_failed [OF Some Inl] show ?thesis by blast
  next
    case (Inr p)
    from execute_strategy_fetched [OF Some Inr] show ?thesis by blast
  qed
qed

section \<open>The bounded history\<close>

lemma push_sample_length: "length h \<le> 100 \<Longrightarrow> length (push_sample x h) \<le> 100"
  by (simp add: push_sample_def Let_def)

lemma push_sample_full: "length h = 100 \<Longrightarrow> push_sample x h = tl h @ [x]"
  by (cases h) (simp_all add: push_sample_def Let_def)

lemma push_sample_not_full: "length h < 100 \<Longrightarrow> push_sample x h = h @ [x]"
  by (simp add: push_sample_def Let_def)

lemma execute_strategy_history:
  assumes "length (price_history b) \<le> 100" and "execute_strategy e ws b = Inr b'"
  shows "length (price_history b') \<le> 100"
proof (cases "config b")
  case None
  with assms show ?thesis by (simp add: execute_strategy_no_config)
next
  case (Some cfg)
  show ?thesis
  proof (cases "fetch_price e ws (wallet_id cfg) (symbol cfg)")
    case (Inl x)
    from execute_strategy_fetch_failed [OF Some Inl] assms show ?thesis by auto
  next
    case (Inr p)
    from execute_strategy_fetched [OF Some Inr] assms push_sample_length [OF assms(1)]
    show ?thesis by auto
  qed
qed

lemma loop_exit_fields:
  "price_history (loop_exit b) = price_history b \<and> start_time (loop_exit b) = start_time b"
  by (simp add: loop_exit_def)

lemma loop_iteration_history:
  assumes "length (price_history b) \<le> 100"
  shows "length (price_history (snd (loop_iteration e ws b))) \<le> 100"
proof (cases "config b")
  case None
  with assms show ?thesis by (simp add: loop_iteration_def)
next
  case (Some cfg)
  from execute_strategy_never_raises obtain b' where b': "execute_strategy e ws b = Inr b'" by blast
  with Some execute_strategy_history [OF assms b'] show ?thesis
    by (simp add: loop_iteration_def)
qed

lemma loop_step_history:
  assumes "length (price_history b) \<le> 100"
  shows "length (price_history (loop_step e ws b)) \<le> 100"
  using assms loop_iteration_history [OF assms, of e ws]
  by (cases "loop_iteration e ws b")
     (auto simp: loop_step_def loop_exit_fields split: bool.splits)

section \<open>What start does\<close>

lemma start_while_alive:
  "bot_thread b = Some Alive \<Longrightarrow>
     start e cfg (ws, b) = (Inl (ValueError Bot_already_running), ws, b)"
  by (simp add: start_def)

lemma start_probe_failed:
  assumes "bot_thread b \<noteq> Some Alive"
      and "get_wallet ws (wallet_id cfg) = (Inr res, ws1)"
      and "wallet_found ws1 res"
      and "fetch_price e ws1 (wallet_id cfg) (symbol cfg) = Inl x"
  shows "start e cfg (ws, b) = (Inl (ValueError (Invalid_symbol_or_connection x)), ws1, b)"
  using assms by (simp add: start_def)

lemma start_probe_ok:
  assumes "bot_thread b \<noteq> Some Alive"
      and "get_wallet ws (wallet_id cfg) = (Inr res, ws1)"
      and "wallet_found ws1 res"
      and "fetch_price e ws1 (wallet_id cfg) (symbol cfg) = Inr p"
  shows "start e cfg (ws, b) =
           (Inr True, ws1,
            b\<lparr>config := Some cfg, start_time := Some (utcnow e), last_price := Some p,
              st_wallet_id := Some (wallet_id cfg), st_symbol := Some (symbol cfg),
              price_history := [], error_message := None,
              last_operation := Some (Bot_started (symbol cfg)), stop_event := False,
              bot_thread := Some Alive, status := RUNNING\<rparr>)"
  using assms by (simp add: start_def)

text \<open>A start either fails and leaves the bot as it was, or begins a new run.\<close>

lemma start_cases:
  assumes "start e cfg (ws, b) = (r, ws1, b1)"
  shows "(\<exists>x. r = Inl x \<and> b1 = b)
       \<or> (r = Inr True \<and> bot_thread b \<noteq> Some Alive \<and> bot_thread b1 = Some Alive
           \<and> start_time b1 = Some (utcnow e) \<and> price_history b1 = []
           \<and> status b1 = RUNNING \<and> config b1 = Some cfg \<and> stop_event b1 = False)"
proof (cases "bot_thread b = Some Alive")
  case True
  with assms show ?thesis by (auto simp: start_while_alive)
next
  case False
  obtain gr ws' where g: "get_wallet ws (wallet_id cfg) = (gr, ws')"
    by (cases "get_wallet ws (wallet_id cfg)")
  show ?thesis
  proof (cases gr)
    case (Inl x)
    with assms False g show ?thesis by (auto simp: start_def)
  next
    case (Inr res)
    show ?thesis
    proof (cases "wallet_found ws' res")
      case nf: False
      with assms False g Inr show ?thesis by (auto simp: start_def)
    next
      case True
      show ?thesis
      proof (cases "fetch_price e ws' (wallet_id cfg) (symbol cfg)")
        case (Inl x)
        from start_probe_failed [OF False g [unfolded Inr] True Inl] assms
        show ?thesis by auto
      next
        case p: (Inr p)
        from start_probe_ok [OF False g [unfolded Inr] True p] assms False
        show ?thesis by auto
      qed
    qed
  qed
qed

section \<open>The loop keeps the start time\<close>

lemma loop_iteration_start_time:
  "start_time (snd (loop_iteration e ws b)) = start_time b"
proof (cases "config b")
  case None
  then show ?thesis by (simp add: loop_iteration_def)
next
  case (Some cfg)
  show ?thesis
  proof (cases "fetch_price e ws (wallet_id cfg) (symbol cfg)")
    case (Inl x)
    from execute_strategy_fetch_failed [OF Some Inl] Some show ?thesis
      by (simp add: loop_iteration_def)
  next
    case (Inr p)
    from execute_strategy_fetched [OF Some Inr] obtain op where
      "execute_strategy e ws b =
           Inr (b\<lparr>price_history := push_sample (p, utcnow e) (price_history b),
                  last_price := Some p, last_operation := Some op\<rparr>)" ..
    with Some show ?thesis by (simp add: loop_iteration_def)
  qed
qed

lemma loop_step_start_time: "start_time (loop_step e ws b) = start_time b"
  using loop_iteration_start_time [of e ws b]
  by (cases "loop_iteration e ws b")
     (auto simp: loop_step_def loop_exit_fields split: bool.splits)

lemma run_bot_loop_start_time: "start_time (run_bot_loop es ws b) = start_time b"
  by (induction es arbitrary: b) (simp_all add: loop_step_start_time)

lemma run_bot_loop_history:
  "length (price_history b) \<le> 100 \<Longrightarrow> length (price_history (run_bot_loop es ws b)) \<le> 100"
  by (induction es arbitrary: b) (simp_all add: loop_step_history)

section \<open>The history bound in every reachable state\<close>

lemma stop_history: "price_history (snd (stop joined b)) = price_history b"
  by (simp add: stop_def Let_def loop_exit_def)

lemma step_history:
  assumes "length (price_history (snd s)) \<le> 100"
  shows "length (price_history (snd (step s ev))) \<le> 100"
proof (cases s)
  case (Pair ws b)
  with assms have b: "length (price_history b) \<le> 100" by simp
  show ?thesis
  proof (cases ev)
    case (Ev_start e cfg)
    obtain r ws1 b1 where st: "start e cfg (ws, b) = (r, ws1, b1)"
      by (cases "start e cfg (ws, b)")
    from start_cases [OF st] b have "length (price_history b1) \<le> 100" by auto
    with Pair Ev_start st show ?thesis by simp
  next
    case (Ev_loop e)
    with Pair loop_step_history [OF b] show ?thesis by simp
  qed (use Pair b in \<open>simp_all add: stop_history\<close>)
qed

lemma reachable_history: "reachable s \<Longrightarrow> length (price_history (snd s)) \<le> 100"
proof (induction rule: reachable.induct)
  case reachable_init
  then show ?case by (simp add: new_bot_service_def)
next
  case (reachable_step s ev)
  then show ?case by (simp add: step_history)
qed

section \<open>One turn of the loop\<close>

lemma loop_step_fetch_failed:
  assumes "bot_thread b = Some Alive" and "\<not> stop_event b" and "config b = Some cfg"
      and "fetch_price e ws (wallet_id cfg) (symbol cfg) = Inl x"
  shows "loop_step e ws b = b\<lparr>last_operation := Some (Strategy_error x)\<rparr>"
  using assms execute_strategy_fetch_failed [OF assms(3,4)]
  by (simp add: loop_step_def loop_iteration_def)

lemma loop_step_fetched:
  assumes "bot_thread b = Some Alive" and "\<not> stop_event b" and "config b = Some cfg"
      and "fetch_price e ws (wallet_id cfg) (symbol cfg) = Inr p"
  shows "\<exists>op. loop_step e ws b =
           b\<lparr>price_history := push_sample (p, utcnow e) (price_history b),
             last_price := Some p, last_operation := Some op\<rparr>"
proof -
  from execute_strategy_fetched [OF assms(3,4)] obtain op where
    "execute_strategy e ws b =
       Inr (b\<lparr>price_history := push_sample (p, utcnow e) (price_history b),
              last_price := Some p, last_operation := Some op\<rparr>)" ..
  with assms have "loop_step e ws b =
       b\<lparr>price_history := push_sample (p, utcnow e) (price_history b),
         last_price := Some p, last_operation := Some op\<rparr>"
    by (simp add: loop_step_def loop_iteration_def)
  then show ?thesis ..
qed

lemma reachable_run_bot_loop: "reachable (ws, b) \<Longrightarrow> reachable (ws, run_bot_loop es ws b)"
proof (induction es arbitrary: b)
  case Nil
  then show ?case by simp
next
  case (Cons e es)
  from reachable_step [OF Cons.prems, of "Ev_loop e"]
  have "reachable (ws, loop_step e ws b)" by simp
  from Cons.IH [OF this] show ?case by simp
qed

section \<open>What the strategies write\<close>

lemma execute_simple_strategy_signal:
  assumes "l \<noteq> 0"
  shows "\<exists>b'. execute_simple_strategy cfg l c b = Inr b'
          \<and> signal_of (last_operation b') =
              (if ((c - l) / l) * 100 \<le> - threshold_or (buy_threshold cfg) 0.5 then Signal_BUY
               else if ((c - l) / l) * 100 \<ge> threshold_or (sell_threshold cfg) 1.0 then Signal_SELL
               else Signal_NONE)"
  using assms by (simp add: execute_simple_strategy_def Let_def)

lemma execute_simple_strategy_no_error:
  "execute_simple_strategy cfg l c b = Inr b' \<Longrightarrow> last_operation b' \<noteq> Some (Strategy_error x)"
  by (auto simp: execute_simple_strategy_def Let_def split: if_splits)

lemma execute_grid_strategy_no_error:
  "execute_grid_strategy l c b = Inr b' \<Longrightarrow> last_operation b' \<noteq> Some (Strategy_error x)"
  by (auto simp: execute_grid_strategy_def split: if_splits)

lemma execute_grid_strategy_zero: "execute_grid_strategy 0 c b = Inl ZeroDivisionError"
  by (simp add: execute_grid_strategy_def)

lemma execute_strategy_fetched_no_error:
  assumes cfg: "config b = Some cfg"
      and p: "fetch_price e ws (wallet_id cfg) (symbol cfg) = Inr p"
      and r: "execute_strategy e ws b = Inr b'"
  shows "last_operation b' \<noteq> Some (Strategy_error x)"
proof (cases "last_price b = None \<or> last_price b = Some 0")
  case True
  from execute_strategy_monitoring [OF cfg p True] r show ?thesis by auto
next
  case False
  then obtain l where l: "last_price b = Some l" "l \<noteq> 0" by auto
  define b1 where "b1 = b\<lparr>price_history := push_sample (p, utcnow e) (price_history b),
                           last_price := Some p\<rparr>"
  define res where "res = (case strategy cfg of
                 SIMPLE \<Rightarrow> execute_simple_strategy cfg l p b1
               | GRID \<Rightarrow> execute_grid_strategy l p b1)"
  have "\<exists>op. res = Inr (b1\<lparr>last_operation := Some op\<rparr>)"
    unfolding res_def
    using execute_simple_strategy_nonzero [OF l(2), of cfg p b1]
          execute_grid_strategy_nonzero [OF l(2), of p b1]
    by (cases "strategy cfg") simp_all
  then obtain b2 where b2: "res = Inr b2" by blast
  then have ne: "last_operation b2 \<noteq> Some (Strategy_error x)"
    unfolding res_def
    using execute_simple_strategy_no_error [of cfg l p b1 b2 x]
          execute_grid_strategy_no_error [of l p b1 b2 x]
    by (cases "strategy cfg") simp_all
  have "execute_strategy e ws b = Inr b2"
    using cfg p l b2 unfolding res_def b1_def by (simp add: execute_strategy_def Let_def)
  with r ne show ?thesis by simp
qed

section \<open>Credentials that do not resolve\<close>

lemma wallet_credentials_decrypt_failed:
  assumes rec: "wallet_record ws wid = Inr d"
      and k: "map_of d ''api_key'' = Some (PStr ck)"
      and s: "map_of d ''api_secret'' = Some (PStr cs)"
      and fail: "fernet_decrypt e ck = Inl x
                 \<or> (\<exists>pk. fernet_decrypt e ck = Inr pk \<and> fernet_decrypt e cs = Inl x)"
  shows "wallet_credentials e ws wid = Inl x"
  using assms by (auto simp: wallet_credentials_def decrypt_field_def dict_getitem_def)

lemma get_wallet_balance_credentials_failed:
  assumes "wallet_record ws wid = Inr d" and "wallet_credentials e ws wid = Inl x"
  shows "get_wallet_balance e ws wid = Inl (BinanceAPIException (Wallet_balance_error x))"
proof -
  from assms(1) have "wallets ws wid \<noteq> None"
    by (auto simp: wallet_record_def split: option.splits)
  with assms(2) show ?thesis
    by (simp add: get_wallet_balance_def wallet_client_def)
qed

lemma credentials_after_get_wallet:
  assumes "wf_vault ws" and "get_wallet ws w = (r, ws1)"
  shows "wallet_credentials e ws1 wid = wallet_credentials e ws wid"
proof -
  from assms(2) have "ws1 = snd (get_wallet ws w)" by simp
  then show ?thesis
    using wallet_credentials_cong [OF get_wallet_record [OF assms(1), of w wid]] by simp
qed

lemma place_order_credentials_failed:
  assumes "get_wallet ws wid = (Inr res, ws1)" and "wallet_found ws1 res"
      and "wallet_credentials e ws1 wid = Inl x"
  shows "place_order side_text wrap e symb qty wid pr (ws, ts) =
           (Inl (BinanceAPIException (wrap x)), [], ws1, ts)"
  using assms
  by (simp add: place_order_def get_binance_client_from_wallet_def wallet_client_def)

lemma order_call_credentials_failed:
  assumes "get_wallet ws wid = (Inr res, ws1)" and "wallet_found ws1 res"
      and "wallet_credentials e ws1 wid = Inl x"
  shows "order_call wrap call e oid wid symb (ws, ts) =
           (Inl (BinanceAPIException (wrap x)), ws1, ts)"
  using assms
  by (simp add: order_call_def get_binance_client_from_wallet_def wallet_client_def)

lemma get_orders_credentials_failed:
  assumes "get_wallet ws wid = (Inr res, ws1)" and "wallet_found ws1 res"
      and "wallet_credentials e ws1 wid = Inl x"
  shows "get_orders e wid sy (ws, ts) =
           (Inl (BinanceAPIException (Get_orders_error x)), ws1, ts)"
  using assms
  by (simp add: get_orders_def get_binance_client_from_wallet_def wallet_client_def)

section \<open>What an order placement sends and returns\<close>

lemma order_request_type:
  "p_type (order_request side_text symb qty pr) = (if pr = None then ''MARKET'' else ''LIMIT'')
   \<and> p_timeInForce (order_request side_text symb qty pr) =
       (if pr = None then None else Some ''GTC'')
   \<and> p_price (order_request side_text symb qty pr) = pr
   \<and> p_side (order_request side_text symb qty pr) = side_text
   \<and> p_symbol (order_request side_text symb qty pr) = symb
   \<and> p_quantity (order_request side_text symb qty pr) = qty"
  by (cases pr) (simp_all add: order_request_def)

lemma place_order_submits:
  assumes "get_binance_client_from_wallet e ws wid = (Inr c, ws1)"
  shows "fst (snd (place_order side_text wrap e symb qty wid pr (ws, ts))) =
           [order_request side_text symb qty pr]"
  using assms
  by (simp add: place_order_def Let_def split: sum.splits option.splits)

lemma place_order_answer:
  assumes "get_binance_client_from_wallet e ws wid = (Inr c, ws1)"
      and "fst (place_order side_text wrap e symb qty wid pr (ws, ts)) = Inr r"
  shows "\<exists>od. lib_create_order e c (order_request side_text symb qty pr) = Inr od
            \<and> create_order_response e od = Inr r"
  using assms
  by (auto simp: place_order_def Let_def split: sum.splits option.splits)

lemma order_response_mapped_price:
  assumes "order_response_mapped e od = Inr r"
  shows "price_of e (od_price od) = Inr (price r)"
  using assms
  by (auto simp: order_response_mapped_def and_then_def split: sum.splits)

lemma price_of_None:
  "price_of e v = Inr None \<longleftrightarrow> v = None \<or> v = Some []"
  by (auto simp: price_of_def and_then_def float_of_text_def split: option.splits sum.splits)

lemma order_response_basic_price:
  "order_response_basic e od = Inr r \<Longrightarrow> price r = None"
  by (auto simp: order_response_basic_def and_then_def split: sum.splits)

lemma create_order_response_price:
  assumes "create_order_response e od = Inr r"
  shows "price r = None \<longleftrightarrow>
           od_price od = None \<or> od_price od = Some [] \<or> isl (order_response_mapped e od)"
proof (cases "order_response_mapped e od")
  case (Inl x)
  with assms have "order_response_basic e od = Inr r" by (simp add: create_order_response_def)
  from order_response_basic_price [OF this] Inl show ?thesis by simp
next
  case (Inr r')
  with assms have "r' = r" by (simp add: create_order_response_def)
  with Inr order_response_mapped_price [of e od r] have "price_of e (od_price od) = Inr (price r)"
    by simp
  then have "price r = None \<longleftrightarrow> od_price od = None \<or> od_price od = Some []"
    using price_of_None [of e "od_price od"] by auto
  with Inr show ?thesis by simp
qed

lemma order_request_eq:
  "order_request side_text symb qty pr =
     \<lparr>p_symbol = symb, p_side = side_text,
      p_type = (if pr = None then ''MARKET'' else ''LIMIT''),
      p_timeInForce = (if pr = None then None else Some ''GTC''),
      p_quantity = qty, p_price = pr\<rparr>"
  by (cases pr) (simp_all add: order_request_def)

lemma place_order_price:
  assumes c: "get_binance_client_from_wallet e ws wid = (Inr c, ws1)"
      and r: "fst (place_order side_text wrap e symb qty wid pr (ws, ts)) = Inr r"
  shows "\<exists>od. lib_create_order e c (order_request side_text symb qty pr) = Inr od
            \<and> (price r = None \<longleftrightarrow>
                 od_price od = None \<or> od_price od = Some [] \<or> isl (order_response_mapped e od))"
proof -
  from place_order_answer [OF c r] obtain od where
    od: "lib_create_order e c (order_request side_text symb qty pr) = Inr od"
    and cr: "create_order_response e od = Inr r" by blast
  show ?thesis
  proof (intro exI conjI)
    show "lib_create_order e c (order_request side_text symb qty pr) = Inr od" by (rule od)
    show "price r = None \<longleftrightarrow>
            od_price od = None \<or> od_price od = Some [] \<or> isl (order_response_mapped e od)"
      by (rule create_order_response_price [OF cr])
  qed
qed

section \<open>The last eight characters and their encoding\<close>

text \<open>For a key without continuation bytes (an ASCII key) \<open>last8\<close> is its last 8 bytes.\<close>

lemma take_last_chars_ascii:
  "\<forall>c\<in>set cs. \<not> is_continuation c \<Longrightarrow> take_last_chars n cs = take n cs"
  by (induction cs arbitrary: n) (simp_all add: take_Cons')

lemma last8_ascii:
  assumes "\<forall>c\<in>set k. \<not> is_continuation c"
  shows "last8 k = drop (length k - 8) k"
proof -
  from assms have "take_last_chars 8 (rev k) = take 8 (rev k)"
    by (intro take_last_chars_ascii) simp
  then show ?thesis by (simp add: last8_def rev_take)
qed
















section \<open>The example vault, evaluated\<close>

lemma example_wallet_id: "wallet_id_of ''0123456789abcdef'' = ''ODlhYmNkZWY=''"
  by (simp add: wallet_id_of_def last8_def is_continuation_def b64_digit_def b64_alphabet_def)

lemma example_probe: "connection_probe example_env ''0123456789abcdef'' ''secret'' True = Inr True"
  by (simp add: connection_probe_def get_binance_client_def test_connection_def example_env_def)

lemma example_vault_eq:
  "example_vault =
     \<lparr>wallets = [''ODlhYmNkZWY='' \<mapsto> 0],
      heap = [[(''api_key'', PStr ''k1:0123456789abcdef''), (''api_secret'', PStr ''k1:secret''),
               (''name'', PStr ''Wallet-ODlhYm''), (''use_testnet'', PBool True),
               (''connected_at'', PStr ''2024-01-01T00:00:00'')]]\<rparr>"
  by (simp add: example_vault_def connect_wallet_def example_probe new_wallet_service_def
      new_wallet_dict_def example_wallet_id wallet_display_name_def)
     (simp add: example_env_def)

lemma example_vault_wf: "wf_vault example_vault"
  by (simp add: example_vault_eq wf_vault_def)

lemma example_vault_record:
  "wallet_record example_vault ''ODlhYmNkZWY='' =
     Inr [(''api_key'', PStr ''k1:0123456789abcdef''), (''api_secret'', PStr ''k1:secret''),
          (''name'', PStr ''Wallet-ODlhYm''), (''use_testnet'', PBool True),
          (''connected_at'', PStr ''2024-01-01T00:00:00'')]"
  by (simp add: example_vault_eq wallet_record_def)

lemma example_vault_credentials:
  "wallet_credentials example_env example_vault ''ODlhYmNkZWY='' =
     Inr (''0123456789abcdef'', ''secret'', True)"
  by (simp add: wallet_credentials_def example_vault_record decrypt_field_def dict_getitem_def
      bool_field_def example_env_def)

section \<open>The example bot, evaluated\<close>

lemma example_get_wallet:
  "get_wallet example_vault ''ODlhYmNkZWY='' =
     (Inr (Some 1),
      \<lparr>wallets = [''ODlhYmNkZWY='' \<mapsto> 0],
       heap = [[(''api_key'', PStr ''k1:0123456789abcdef''), (''api_secret'', PStr ''k1:secret''),
                (''name'', PStr ''Wallet-ODlhYm''), (''use_testnet'', PBool True),
                (''connected_at'', PStr ''2024-01-01T00:00:00'')],
               [(''name'', PStr ''Wallet-ODlhYm''), (''use_testnet'', PBool True),
                (''connected_at'', PStr ''2024-01-01T00:00:00'')]]\<rparr>)"
  by (simp add: example_vault_eq get_wallet_def pop_at_def dict_pop_def)

lemma example_credentials_after:
  "wallet_credentials e (snd (get_wallet example_vault ''ODlhYmNkZWY='')) ''ODlhYmNkZWY='' =
   wallet_credentials e example_vault ''ODlhYmNkZWY=''"
  by (rule wallet_credentials_cong) (rule get_wallet_record [OF example_vault_wf])

lemma example_client:
  "fernet_decrypt e = fernet_decrypt example_env \<Longrightarrow> lib_Client e = (\<lambda>k s t. None) \<Longrightarrow>
   wallet_client e (snd (get_wallet example_vault ''ODlhYmNkZWY='')) ''ODlhYmNkZWY='' =
     Inr \<lparr>c_api_key = ''0123456789abcdef'', c_api_secret = ''secret'', c_testnet = True\<rparr>"
  unfolding wallet_client_def example_credentials_after
  by (simp add: wallet_credentials_def example_vault_record decrypt_field_def dict_getitem_def
      bool_field_def get_binance_client_def example_env_def)

lemma example_fetch_price:
  "fetch_price example_env (snd (get_wallet example_vault ''ODlhYmNkZWY='')) ''ODlhYmNkZWY='' symb =
     Inr 100"
proof -
  have "wallet_client example_env (snd (get_wallet example_vault ''ODlhYmNkZWY='')) ''ODlhYmNkZWY='' =
     Inr \<lparr>c_api_key = ''0123456789abcdef'', c_api_secret = ''secret'', c_testnet = True\<rparr>"
    by (rule example_client) (simp_all add: example_env_def)
  then show ?thesis
    by (simp add: fetch_price_def get_price_def example_env_def)
qed

lemma priced_fetch_price:
  "fetch_price (priced_env p) (snd (get_wallet example_vault ''ODlhYmNkZWY='')) ''ODlhYmNkZWY='' symb =
     Inr p"
proof -
  have "wallet_client (priced_env p) (snd (get_wallet example_vault ''ODlhYmNkZWY='')) ''ODlhYmNkZWY='' =
     Inr \<lparr>c_api_key = ''0123456789abcdef'', c_api_secret = ''secret'', c_testnet = True\<rparr>"
    by (rule example_client) (simp_all add: priced_env_def example_env_def)
  then show ?thesis
    by (simp add: fetch_price_def get_price_def priced_env_def)
qed

lemma failing_fetch_price:
  "fetch_price failing_env (snd (get_wallet example_vault ''ODlhYmNkZWY='')) ''ODlhYmNkZWY='' symb =
     Inl (BinanceAPIException (Price_error symb (BinanceLibException ''Invalid symbol.'')))"
proof -
  have "wallet_client failing_env (snd (get_wallet example_vault ''ODlhYmNkZWY='')) ''ODlhYmNkZWY='' =
     Inr \<lparr>c_api_key = ''0123456789abcdef'', c_api_secret = ''secret'', c_testnet = True\<rparr>"
    by (rule example_client) (simp_all add: failing_env_def example_env_def)
  then show ?thesis
    by (simp add: fetch_price_def get_price_def failing_env_def)
qed

lemma example_wallet_found:
  "wallet_found (snd (get_wallet example_vault ''ODlhYmNkZWY='')) (Some 1)"
  by (simp add: example_get_wallet wallet_found_def)

lemma example_start:
  "start example_env example_config (example_vault, new_bot_service) =
     (Inr True, snd (get_wallet example_vault ''ODlhYmNkZWY=''),
      \<lparr>bot_thread = Some Alive, stop_event = False, status = RUNNING,
       config = Some example_config, start_time = Some ''2024-01-01T00:00:00'',
       last_price = Some 100, last_operation = Some (Bot_started ''BTCUSDT''),
       error_message = None, st_wallet_id = Some ''ODlhYmNkZWY='',
       st_symbol = Some ''BTCUSDT'', price_history = []\<rparr>)"
proof -
  have w: "wallet_id example_config = ''ODlhYmNkZWY=''" "symbol example_config = ''BTCUSDT''"
    by (simp_all add: example_config_def)
  have g: "get_wallet example_vault (wallet_id example_config) =
      (Inr (Some 1), snd (get_wallet example_vault ''ODlhYmNkZWY=''))"
    by (simp add: w example_get_wallet)
  have t: "bot_thread new_bot_service \<noteq> Some Alive" by (simp add: new_bot_service_def)
  have f: "fetch_price example_env (snd (get_wallet example_vault ''ODlhYmNkZWY=''))
      (wallet_id example_config) (symbol example_config) = Inr 100"
    by (simp add: w example_fetch_price)
  from start_probe_ok [OF t g example_wallet_found f] show ?thesis
    by (simp add: w new_bot_service_def) (simp add: example_env_def)
qed

lemma started_vault_eq: "started_vault = snd (get_wallet example_vault ''ODlhYmNkZWY='')"
  by (simp add: started_vault_def example_start)

lemma started_bot_eq:
  "started_bot =
      \<lparr>bot_thread = Some Alive, stop_event = False, status = RUNNING,
       config = Some example_config, start_time = Some ''2024-01-01T00:00:00'',
       last_price = Some 100, last_operation = Some (Bot_started ''BTCUSDT''),
       error_message = None, st_wallet_id = Some ''ODlhYmNkZWY='',
       st_symbol = Some ''BTCUSDT'', price_history = []\<rparr>"
  by (simp add: started_bot_def example_start)

lemma priced_utcnow: "utcnow (priced_env p) = ''2024-01-01T00:00:00''"
  by (simp add: priced_env_def example_env_def)

lemma example_config_fields:
  "wallet_id example_config = ''ODlhYmNkZWY=''" "symbol example_config = ''BTCUSDT''"
  by (simp_all add: example_config_def)

lemma priced_pass:
  assumes "bot_thread b = Some Alive" and "\<not> stop_event b" and "config b = Some example_config"
  shows "\<exists>op. loop_step (priced_env p) started_vault b =
           b\<lparr>price_history := push_sample (p, ''2024-01-01T00:00:00'') (price_history b),
             last_price := Some p, last_operation := Some op\<rparr>"
proof -
  have "fetch_price (priced_env p) started_vault (wallet_id example_config)
          (symbol example_config) = Inr p"
    by (simp add: started_vault_eq example_config_fields priced_fetch_price)
  from loop_step_fetched [OF assms this] show ?thesis by (simp add: priced_utcnow)
qed

lemma priced_run:
  assumes "bot_thread b = Some Alive" and "\<not> stop_event b" and "config b = Some example_config"
      and "length (price_history b) + length ps \<le> 100"
  shows "bot_thread (run_bot_loop (map priced_env ps) started_vault b) = Some Alive
       \<and> \<not> stop_event (run_bot_loop (map priced_env ps) started_vault b)
       \<and> config (run_bot_loop (map priced_env ps) started_vault b) = Some example_config
       \<and> price_history (run_bot_loop (map priced_env ps) started_vault b) =
           price_history b @ map (\<lambda>p. (p, ''2024-01-01T00:00:00'')) ps"
  using assms
proof (induction ps arbitrary: b)
  case Nil
  then show ?case by simp
next
  case (Cons p ps)
  from priced_pass [OF Cons.prems(1-3), of p] obtain op where
    st: "loop_step (priced_env p) started_vault b =
           b\<lparr>price_history := push_sample (p, ''2024-01-01T00:00:00'') (price_history b),
             last_price := Some p, last_operation := Some op\<rparr>" ..
  from Cons.prems(4) have "length (price_history b) < 100" by simp
  then have ps: "push_sample (p, ''2024-01-01T00:00:00'') (price_history b) =
      price_history b @ [(p, ''2024-01-01T00:00:00'')]"
    by (rule push_sample_not_full)
  define b1 where "b1 = loop_step (priced_env p) started_vault b"
  have b1: "bot_thread b1 = Some Alive" "\<not> stop_event b1" "config b1 = Some example_config"
    "price_history b1 = price_history b @ [(p, ''2024-01-01T00:00:00'')]"
    using Cons.prems(1-3) by (simp_all add: b1_def st ps)
  have len: "length (price_history b1) + length ps \<le> 100"
    using Cons.prems(4) b1(4) by simp
  from Cons.IH [OF b1(1-3) len] b1(4) show ?case
    by (simp add: b1_def)
qed

lemma full_bot_facts:
  "bot_thread full_bot = Some Alive \<and> \<not> stop_event full_bot
   \<and> config full_bot = Some example_config
   \<and> price_history full_bot = map (\<lambda>p. (p, ''2024-01-01T00:00:00'')) (map real [1..<101])"
  using priced_run [of started_bot "map real [1..<101]"]
  by (simp add: full_bot_def started_bot_eq)

lemma example_reachable: "reachable (started_vault, started_bot)"
proof -
  have "reachable (step (new_wallet_service, new_bot_service)
          (Ev_connect example_env ''0123456789abcdef'' ''secret'' None True))"
    by (rule reachable_step) (rule reachable_init)
  then have "reachable (example_vault, new_bot_service)"
    by (simp add: example_vault_def)
  from reachable_step [OF this, of "Ev_start example_env example_config"]
  show ?thesis by (simp add: started_vault_def started_bot_def)
qed

lemma full_bot_reachable: "reachable (started_vault, full_bot)"
  unfolding full_bot_def by (rule reachable_run_bot_loop) (rule example_reachable)

section \<open>Reading a wallet does not change the vault (C10)\<close>

text \<open>
  Claim C10. \<open>get_wallet\<close> pops the two encrypted fields from a copy: after any
  number of \<open>get_wallet\<close> calls, for any ids, the vault maps the same ids to the same
  references, the record stored for every wallet id is the record stored before (so it
  still holds its \<open>api_key\<close> and \<open>api_secret\<close>), and resolving the credentials of
  a wallet gives what it gave before, a success where it was one.
\<close>

theorem get_wallet_leaves_vault:
  assumes "wf_vault ws"
  shows "wallets (get_wallet_calls ws wids) = wallets ws
       \<and> wallet_record (get_wallet_calls ws wids) w = wallet_record ws w
       \<and> wallet_credentials e (get_wallet_calls ws wids) w = wallet_credentials e ws w"
proof -
  have rec: "wallet_record (get_wallet_calls ws wids) w = wallet_record ws w"
    using assms by (rule get_wallet_calls_record)
  from rec wallet_credentials_cong [OF rec] show ?thesis
    by (simp add: get_wallet_calls_wallets)
qed

theorem get_wallet_leaves_vault_witness:
  "wf_vault example_vault
   \<and> wallet_record (get_wallet_calls example_vault
        [''ODlhYmNkZWY='', ''unknown'', ''ODlhYmNkZWY='']) ''ODlhYmNkZWY='' =
       Inr [(''api_key'', PStr ''k1:0123456789abcdef''), (''api_secret'', PStr ''k1:secret''),
            (''name'', PStr ''Wallet-ODlhYm''), (''use_testnet'', PBool True),
            (''connected_at'', PStr ''2024-01-01T00:00:00'')]
   \<and> wallet_credentials example_env (get_wallet_calls example_vault
        [''ODlhYmNkZWY='', ''unknown'', ''ODlhYmNkZWY='']) ''ODlhYmNkZWY='' =
       Inr (''0123456789abcdef'', ''secret'', True)"
  using get_wallet_leaves_vault [OF example_vault_wf,
      of "[''ODlhYmNkZWY='', ''unknown'', ''ODlhYmNkZWY='']" "''ODlhYmNkZWY=''" example_env]
  by (simp add: example_vault_wf example_vault_record example_vault_credentials)

section \<open>The wallet id is an encoding of the key's last eight characters (C8)\<close>




section \<open>A second start while the loop is alive (C3)\<close>

text \<open>
  Claim C3. After \<open>start\<close> has succeeded, and for as long as the thread it launched
  is alive (after any number of turns of the loop), another \<open>start\<close>, with any
  configuration, world and vault, raises the "already running" \<open>ValueError\<close> and
  leaves the bot state as it is; in particular \<open>start_time\<close> is still the time of
  the first start.
\<close>

theorem second_start_is_refused:
  assumes "start e cfg (ws, b) = (Inr True, ws1, b1)"
      and "bot_thread (run_bot_loop es ws1 b1) = Some Alive"
  shows "start e' cfg' (ws', run_bot_loop es ws1 b1) =
           (Inl (ValueError Bot_already_running), ws', run_bot_loop es ws1 b1)
       \<and> start_time (run_bot_loop es ws1 b1) = start_time b1
       \<and> start_time b1 = Some (utcnow e)"
  using start_cases [OF assms(1)] start_while_alive [OF assms(2)]
  by (simp add: run_bot_loop_start_time)

theorem second_start_is_refused_witness:
  "start example_env example_config (example_vault, new_bot_service) =
     (Inr True, started_vault, started_bot)
   \<and> bot_thread (run_bot_loop [priced_env 101] started_vault started_bot) = Some Alive
   \<and> start failing_env example_config
         (example_vault, run_bot_loop [priced_env 101] started_vault started_bot) =
       (Inl (ValueError Bot_already_running), example_vault,
        run_bot_loop [priced_env 101] started_vault started_bot)
   \<and> start_time (run_bot_loop [priced_env 101] started_vault started_bot) =
       Some ''2024-01-01T00:00:00''"
proof -
  have st: "start example_env example_config (example_vault, new_bot_service) =
     (Inr True, started_vault, started_bot)"
    by (simp add: example_start started_vault_eq started_bot_eq)
  have alive: "bot_thread (run_bot_loop [priced_env 101] started_vault started_bot) = Some Alive"
    using priced_run [of started_bot "[101]"] by (simp add: started_bot_eq)
  have t0: "start_time started_bot = Some ''2024-01-01T00:00:00''"
    by (simp add: started_bot_eq)
  from second_start_is_refused [OF st alive, of failing_env example_config example_vault]
  have "start failing_env example_config
         (example_vault, run_bot_loop [priced_env 101] started_vault started_bot) =
       (Inl (ValueError Bot_already_running), example_vault,
        run_bot_loop [priced_env 101] started_vault started_bot)"
    and "start_time (run_bot_loop [priced_env 101] started_vault started_bot) =
       Some ''2024-01-01T00:00:00''"
    unfolding t0 by blast+
  with st alive show ?thesis by blast
qed

section \<open>A failed price probe aborts start without a trace (C4)\<close>

text \<open>
  Claim C4. When no loop is alive, the wallet is found and its client is built but the
  \<open>get_price\<close> probe raises, \<open>start\<close> raises the \<open>ValueError\<close> "invalid symbol or
  connection error" around the probe's exception, and the bot state after the call is
  the bot state before it, field for field.
\<close>

theorem start_probe_failure_changes_nothing:
  assumes "bot_thread b \<noteq> Some Alive"
      and "get_wallet ws (wallet_id cfg) = (Inr res, ws1)"
      and "wallet_found ws1 res"
      and "wallet_client e ws1 (wallet_id cfg) = Inr c"
      and "get_price e c (symbol cfg) = Inl x"
  shows "start e cfg (ws, b) = (Inl (ValueError (Invalid_symbol_or_connection x)), ws1, b)"
proof -
  have "fetch_price e ws1 (wallet_id cfg) (symbol cfg) = Inl x"
    using assms(4,5) by (simp add: fetch_price_def)
  from start_probe_failed [OF assms(1-3) this] show ?thesis .
qed

theorem start_probe_failure_changes_nothing_witness:
  "bot_thread new_bot_service \<noteq> Some Alive
   \<and> get_wallet example_vault (wallet_id example_config) = (Inr (Some 1), started_vault)
   \<and> wallet_found started_vault (Some 1)
   \<and> wallet_client failing_env started_vault (wallet_id example_config) =
       Inr \<lparr>c_api_key = ''0123456789abcdef'', c_api_secret = ''secret'', c_testnet = True\<rparr>
   \<and> start failing_env example_config (example_vault, new_bot_service) =
       (Inl (ValueError (Invalid_symbol_or_connection
          (BinanceAPIException (Price_error ''BTCUSDT'' (BinanceLibException ''Invalid symbol.''))))),
        started_vault, new_bot_service)"
proof -
  have t: "bot_thread new_bot_service \<noteq> Some Alive" by (simp add: new_bot_service_def)
  have g: "get_wallet example_vault (wallet_id example_config) = (Inr (Some 1), started_vault)"
    by (simp add: example_config_fields started_vault_eq example_get_wallet)
  have f: "wallet_found started_vault (Some 1)"
    unfolding started_vault_eq by (rule example_wallet_found)
  have c: "wallet_client failing_env started_vault (wallet_id example_config) =
       Inr \<lparr>c_api_key = ''0123456789abcdef'', c_api_secret = ''secret'', c_testnet = True\<rparr>"
    unfolding started_vault_eq example_config_fields
    by (rule example_client) (simp_all add: failing_env_def example_env_def)
  have p: "get_price failing_env
        \<lparr>c_api_key = ''0123456789abcdef'', c_api_secret = ''secret'', c_testnet = True\<rparr>
        (symbol example_config) =
      Inl (BinanceAPIException (Price_error ''BTCUSDT'' (BinanceLibException ''Invalid symbol.'')))"
    by (simp add: get_price_def failing_env_def example_config_fields)
  from start_probe_failure_changes_nothing [OF t g f c p] t g f c show ?thesis
    by blast
qed

section \<open>The price history holds at most 100 samples (C5)\<close>

lemma full_history_hd: "hd (price_history full_bot) = (1, ''2024-01-01T00:00:00'')"
  by (simp add: full_bot_facts upt_conv_Cons)

lemma full_history_length: "length (price_history full_bot) = 100"
  by (simp add: full_bot_facts)

lemma full_history_tl:
  "tl (price_history full_bot) = map (\<lambda>p. (p, ''2024-01-01T00:00:00'')) (map real [2..<101])"
proof -
  have "[1..<101] = 1 # [2..<101]" by (simp add: upt_conv_Cons)
  then show ?thesis by (simp add: full_bot_facts)
qed

text \<open>
  Claim C5. In every state that the services can reach from their initial state (by
  connecting wallets, reading them, starting, stopping and turns of the loop) the price
  history holds at most 100 samples. When it holds exactly 100 and a turn of the loop
  fetches a price, the history afterwards is the old one without its first (oldest)
  sample, followed by the new sample: still 100 long, the new sample last.
\<close>

theorem price_history_bounded_fifo:
  assumes "reachable (ws, b)"
  shows "length (price_history b) \<le> 100
       \<and> (length (price_history b) = 100 \<longrightarrow> bot_thread b = Some Alive \<longrightarrow> \<not> stop_event b \<longrightarrow>
          config b = Some cfg \<longrightarrow> fetch_price e ws (wallet_id cfg) (symbol cfg) = Inr p \<longrightarrow>
            price_history (loop_step e ws b) = tl (price_history b) @ [(p, utcnow e)]
            \<and> length (price_history (loop_step e ws b)) = 100
            \<and> last (price_history (loop_step e ws b)) = (p, utcnow e))"
proof -
  from reachable_history [OF assms] have bound: "length (price_history b) \<le> 100" by simp
  have "price_history (loop_step e ws b) = tl (price_history b) @ [(p, utcnow e)]
        \<and> length (price_history (loop_step e ws b)) = 100
        \<and> last (price_history (loop_step e ws b)) = (p, utcnow e)"
    if full: "length (price_history b) = 100" and t: "bot_thread b = Some Alive"
      and s: "\<not> stop_event b" and c: "config b = Some cfg"
      and f: "fetch_price e ws (wallet_id cfg) (symbol cfg) = Inr p"
  proof -
    from loop_step_fetched [OF t s c f] obtain op where
      "loop_step e ws b =
           b\<lparr>price_history := push_sample (p, utcnow e) (price_history b),
             last_price := Some p, last_operation := Some op\<rparr>" ..
    then have "price_history (loop_step e ws b) = tl (price_history b) @ [(p, utcnow e)]"
      by (simp add: push_sample_full [OF full])
    with full show ?thesis by simp
  qed
  with bound show ?thesis by blast
qed

theorem price_history_bounded_fifo_witness:
  "reachable (started_vault, full_bot)
   \<and> length (price_history full_bot) = 100
   \<and> hd (price_history full_bot) = (1, ''2024-01-01T00:00:00'')
   \<and> fetch_price (priced_env 101) started_vault (wallet_id example_config) (symbol example_config) =
       Inr 101
   \<and> price_history (loop_step (priced_env 101) started_vault full_bot) =
       map (\<lambda>p. (p, ''2024-01-01T00:00:00'')) (map real [2..<102])
   \<and> length (price_history (loop_step (priced_env 101) started_vault full_bot)) = 100
   \<and> last (price_history (loop_step (priced_env 101) started_vault full_bot)) =
       (101, ''2024-01-01T00:00:00'')"
proof -
  have f: "fetch_price (priced_env 101) started_vault (wallet_id example_config)
      (symbol example_config) = Inr 101"
    by (simp add: started_vault_eq example_config_fields priced_fetch_price)
  have up: "[2..<102] = [2..<101] @ [101]"
    using upt_Suc_append [of 2 101] by simp
  from price_history_bounded_fifo [OF full_bot_reachable, of example_config "priced_env 101" 101]
    full_history_length full_bot_facts f
  have "price_history (loop_step (priced_env 101) started_vault full_bot) =
          tl (price_history full_bot) @ [(101, ''2024-01-01T00:00:00'')]"
    and l: "length (price_history (loop_step (priced_env 101) started_vault full_bot)) = 100"
    and la: "last (price_history (loop_step (priced_env 101) started_vault full_bot)) =
       (101, ''2024-01-01T00:00:00'')"
    by (simp_all add: priced_utcnow)
  then have "price_history (loop_step (priced_env 101) started_vault full_bot) =
       map (\<lambda>p. (p, ''2024-01-01T00:00:00'')) (map real [2..<102])"
    by (simp add: full_history_tl up)
  with full_bot_reachable full_history_length full_history_hd f l la show ?thesis by blast
qed

section \<open>A gateway failure inside a turn of the loop (C1)\<close>

text \<open>
  Claim C1 says that a gateway failure inside a loop iteration sets the status to
  \<open>ERROR\<close>, records the message in \<open>error_message\<close> and ends the loop. The two
  \<open>except\<close> clauses of \<open>_run_bot_loop\<close> would do so, but \<open>_execute_strategy\<close>
  catches every exception itself (\<open>execute_strategy_never_raises\<close>), so they are never
  reached. Evaluated on the started example bot with an exchange that refuses the
  ticker request: the failure is written to \<open>last_operation\<close> only, the status stays
  \<open>RUNNING\<close>, \<open>error_message\<close> stays empty, the thread stays alive, and the next
  turn fetches a price again.
\<close>

theorem loop_swallows_gateway_failure:
  "loop_step failing_env started_vault started_bot =
     started_bot\<lparr>last_operation := Some (Strategy_error
        (BinanceAPIException (Price_error ''BTCUSDT'' (BinanceLibException ''Invalid symbol.''))))\<rparr>
   \<and> status (loop_step failing_env started_vault started_bot) = RUNNING
   \<and> error_message (loop_step failing_env started_vault started_bot) = None
   \<and> bot_thread (loop_step failing_env started_vault started_bot) = Some Alive
   \<and> price_history (run_bot_loop [failing_env, priced_env 101] started_vault started_bot) =
       [(101, ''2024-01-01T00:00:00'')]"
proof -
  have f: "fetch_price failing_env started_vault (wallet_id example_config)
      (symbol example_config) =
      Inl (BinanceAPIException (Price_error ''BTCUSDT'' (BinanceLibException ''Invalid symbol.'')))"
    by (simp add: started_vault_eq example_config_fields failing_fetch_price)
  have t: "bot_thread started_bot = Some Alive" "\<not> stop_event started_bot"
    "config started_bot = Some example_config"
    by (simp_all add: started_bot_eq)
  have st: "loop_step failing_env started_vault started_bot =
     started_bot\<lparr>last_operation := Some (Strategy_error
        (BinanceAPIException (Price_error ''BTCUSDT'' (BinanceLibException ''Invalid symbol.''))))\<rparr>"
    by (rule loop_step_fetch_failed [OF t f])
  define b1 where "b1 = loop_step failing_env started_vault started_bot"
  have b1: "bot_thread b1 = Some Alive" "\<not> stop_event b1" "config b1 = Some example_config"
    "price_history b1 = []" "status b1 = RUNNING" "error_message b1 = None"
    unfolding b1_def st by (simp_all add: started_bot_eq)
  from priced_pass [OF b1(1-3), of 101] obtain op where
    "loop_step (priced_env 101) started_vault b1 =
           b1\<lparr>price_history := push_sample (101, ''2024-01-01T00:00:00'') (price_history b1),
             last_price := Some 101, last_operation := Some op\<rparr>" ..
  then have "price_history (run_bot_loop [failing_env, priced_env 101] started_vault started_bot) =
       [(101, ''2024-01-01T00:00:00'')]"
    by (simp add: b1_def [symmetric] b1(4) push_sample_def)
  with st b1 show ?thesis unfolding b1_def by blast
qed

section \<open>The division by the previous price (C9)\<close>

text \<open>
  Claim C9. In a turn of the loop with a configuration: when the stored previous price
  is missing or exactly zero and the price is fetched, the turn takes the monitoring
  branch (it records the sample, the new last price and the text "monitoring") and no
  strategy runs. The division of the two strategies raises \<open>ZeroDivisionError\<close>
  exactly at a previous price of zero, and no turn ever records that exception unless
  the price fetch itself raised it: the strategies are only called with a previous
  price other than zero.
\<close>

theorem previous_price_division_is_guarded:
  assumes cfg: "config b = Some cfg"
  shows "(last_price b = None \<or> last_price b = Some 0 \<longrightarrow>
          fetch_price e ws (wallet_id cfg) (symbol cfg) = Inr p \<longrightarrow>
            execute_strategy e ws b =
              Inr (b\<lparr>price_history := push_sample (p, utcnow e) (price_history b),
                     last_price := Some p, last_operation := Some (Monitoring p)\<rparr>))
       \<and> (fetch_price e ws (wallet_id cfg) (symbol cfg) \<noteq> Inl ZeroDivisionError \<longrightarrow>
            (\<forall>b'. execute_strategy e ws b = Inr b' \<longrightarrow>
                  last_operation b' \<noteq> Some (Strategy_error ZeroDivisionError)))
       \<and> execute_simple_strategy cfg 0 p b = Inl ZeroDivisionError
       \<and> execute_grid_strategy 0 p b = Inl ZeroDivisionError"
proof -
  have a: "execute_strategy e ws b =
              Inr (b\<lparr>price_history := push_sample (p, utcnow e) (price_history b),
                     last_price := Some p, last_operation := Some (Monitoring p)\<rparr>)"
    if "last_price b = None \<or> last_price b = Some 0"
      and "fetch_price e ws (wallet_id cfg) (symbol cfg) = Inr p"
    using execute_strategy_monitoring [OF cfg that(2) that(1)] .
  have c: "last_operation b' \<noteq> Some (Strategy_error ZeroDivisionError)"
    if ne: "fetch_price e ws (wallet_id cfg) (symbol cfg) \<noteq> Inl ZeroDivisionError"
      and r: "execute_strategy e ws b = Inr b'" for b'
  proof (cases "fetch_price e ws (wallet_id cfg) (symbol cfg)")
    case (Inl x)
    with ne have "x \<noteq> ZeroDivisionError" by simp
    with execute_strategy_fetch_failed [OF cfg Inl] r show ?thesis by auto
  next
    case (Inr q)
    from execute_strategy_fetched_no_error [OF cfg Inr r] show ?thesis .
  qed
  from a c show ?thesis
    by (simp add: execute_simple_strategy_zero execute_grid_strategy_zero)
qed

theorem previous_price_division_is_guarded_witness:
  "config (started_bot\<lparr>last_price := Some 0\<rparr>) = Some example_config
   \<and> last_price (started_bot\<lparr>last_price := Some 0\<rparr>) = Some 0
   \<and> fetch_price (priced_env 50) started_vault (wallet_id example_config) (symbol example_config) =
       Inr 50
   \<and> execute_strategy (priced_env 50) started_vault (started_bot\<lparr>last_price := Some 0\<rparr>) =
       Inr (started_bot\<lparr>price_history := [(50, ''2024-01-01T00:00:00'')],
                       last_price := Some 50, last_operation := Some (Monitoring 50)\<rparr>)
   \<and> execute_simple_strategy example_config 0 50 (started_bot\<lparr>last_price := Some 0\<rparr>) =
       Inl ZeroDivisionError"
proof -
  have c: "config (started_bot\<lparr>last_price := Some 0\<rparr>) = Some example_config"
    and l: "last_price (started_bot\<lparr>last_price := Some 0\<rparr>) = Some 0"
    and h: "price_history (started_bot\<lparr>last_price := Some 0\<rparr>) = []"
    by (simp_all add: started_bot_eq)
  have f: "fetch_price (priced_env 50) started_vault (wallet_id example_config)
      (symbol example_config) = Inr 50"
    by (simp add: started_vault_eq example_config_fields priced_fetch_price)
  from previous_price_division_is_guarded [OF c, of "priced_env 50" started_vault 50] l f
  have "execute_strategy (priced_env 50) started_vault (started_bot\<lparr>last_price := Some 0\<rparr>) =
       Inr (started_bot\<lparr>price_history := [(50, ''2024-01-01T00:00:00'')],
                       last_price := Some 50, last_operation := Some (Monitoring 50)\<rparr>)"
    and "execute_simple_strategy example_config 0 50 (started_bot\<lparr>last_price := Some 0\<rparr>) =
       Inl ZeroDivisionError"
    by (simp_all add: h priced_utcnow push_sample_def)
  with c l f show ?thesis by blast
qed

section \<open>The thresholds of the SIMPLE strategy (C6)\<close>

text \<open>
  For a previous price other than zero the SIMPLE strategy computes the percent change
  and signals as \<open>execute_simple_strategy_signal\<close> says, with the thresholds read
  through \<open>threshold_or\<close>; under the default thresholds the three examples of the
  specification give BUY, SELL and no signal.
\<close>

lemma simple_strategy_spec_examples:
  "signal_of (last_operation (projr (execute_simple_strategy example_config 100 99 b))) = Signal_BUY
   \<and> signal_of (last_operation (projr (execute_simple_strategy example_config 100 101 b))) = Signal_SELL
   \<and> signal_of (last_operation (projr (execute_simple_strategy example_config 100 100.3 b))) = Signal_NONE"
  by (simp add: execute_simple_strategy_def Let_def example_config_def threshold_or_def)

text \<open>
  Claim C6 reads the thresholds as "the configured value, 0.5 or 1.0 when unset". The
  source reads them with \<open>or\<close>, which also replaces a configured \<open>0.0\<close> by the
  default, against its own comment (defaults "if they are not configured"). With
  \<open>buy_threshold = 0.0\<close>, a previous price of 100 and a current price of 99.8 the
  change is -0.2 percent, at most \<open>-0.0\<close>, so the claim gives BUY; the code compares
  with \<open>-0.5\<close> and only records the analysis.
\<close>

theorem simple_strategy_zero_threshold_is_default:
  "((99.8 - 100) / 100 * 100 :: real) \<le> - 0
   \<and> execute_simple_strategy (example_config\<lparr>buy_threshold := Some 0\<rparr>) 100 99.8 new_bot_service =
       Inr (new_bot_service\<lparr>last_operation := Some (Analysis 99.8 (- 0.2))\<rparr>)
   \<and> signal_of (Some (Analysis 99.8 (- 0.2))) = Signal_NONE
   \<and> threshold_or (Some 0) 0.5 = 0.5"
  by (simp add: execute_simple_strategy_def Let_def example_config_def threshold_or_def)

section \<open>A decryption failure and the error it surfaces as (C2)\<close>

text \<open>
  Claim C2 asks for a distinct \<open>CredentialError\<close>. The source has no such class:
  \<open>_decrypt\<close> lets the cipher's \<open>InvalidToken\<close> through, and every caller catches
  \<open>Exception\<close> and raises its own general error around it. The balance lookup reports
  a key change under the same class (and message template) as an exchange failure, and
  \<open>start\<close> reports it under the same class as an invalid symbol.
\<close>

theorem decrypt_failure_not_distinct_counterexample:
  "get_wallet_balance rotated_env example_vault ''ODlhYmNkZWY='' =
     Inl (BinanceAPIException (Wallet_balance_error InvalidToken))
   \<and> get_wallet_balance account_failing_env example_vault ''ODlhYmNkZWY='' =
     Inl (BinanceAPIException (Wallet_balance_error (BinanceLibException ''Service unavailable.'')))
   \<and> class_of (projl (get_wallet_balance rotated_env example_vault ''ODlhYmNkZWY='')) =
     class_of (projl (get_wallet_balance account_failing_env example_vault ''ODlhYmNkZWY=''))
   \<and> class_of (projl (fst (start rotated_env example_config (example_vault, new_bot_service)))) =
     class_of (projl (fst (start failing_env example_config (example_vault, new_bot_service))))"
proof -
  have c: "wallet_credentials rotated_env example_vault ''ODlhYmNkZWY='' = Inl InvalidToken"
    by (simp add: wallet_credentials_def example_vault_record decrypt_field_def dict_getitem_def
        rotated_env_def)
  have b1: "get_wallet_balance rotated_env example_vault ''ODlhYmNkZWY='' =
     Inl (BinanceAPIException (Wallet_balance_error InvalidToken))"
    by (rule get_wallet_balance_credentials_failed [OF example_vault_record c])
  have c2: "wallet_client account_failing_env example_vault ''ODlhYmNkZWY='' =
     Inr \<lparr>c_api_key = ''0123456789abcdef'', c_api_secret = ''secret'', c_testnet = True\<rparr>"
    by (simp add: wallet_client_def wallet_credentials_def example_vault_record decrypt_field_def
        dict_getitem_def bool_field_def get_binance_client_def account_failing_env_def
        example_env_def)
  have b2: "get_wallet_balance account_failing_env example_vault ''ODlhYmNkZWY='' =
     Inl (BinanceAPIException (Wallet_balance_error (BinanceLibException ''Service unavailable.'')))"
  proof -
    have "wallets example_vault ''ODlhYmNkZWY='' \<noteq> None"
      by (simp add: example_vault_eq)
    moreover have "lib_get_account account_failing_env
        \<lparr>c_api_key = ''0123456789abcdef'', c_api_secret = ''secret'', c_testnet = True\<rparr> =
        Inl (BinanceLibException ''Service unavailable.'')"
      by (simp add: account_failing_env_def)
    ultimately show ?thesis
      by (simp add: get_wallet_balance_def c2)
  qed
  have t: "bot_thread new_bot_service \<noteq> Some Alive" by (simp add: new_bot_service_def)
  have g: "get_wallet example_vault (wallet_id example_config) = (Inr (Some 1), started_vault)"
    by (simp add: example_config_fields started_vault_eq example_get_wallet)
  have f: "wallet_found started_vault (Some 1)"
    unfolding started_vault_eq by (rule example_wallet_found)
  have c1: "wallet_credentials rotated_env started_vault ''ODlhYmNkZWY='' = Inl InvalidToken"
    unfolding started_vault_eq example_credentials_after by (rule c)
  then have fp: "fetch_price rotated_env started_vault (wallet_id example_config)
      (symbol example_config) = Inl InvalidToken"
    by (simp add: fetch_price_def wallet_client_def example_config_fields)
  have s1: "start rotated_env example_config (example_vault, new_bot_service) =
      (Inl (ValueError (Invalid_symbol_or_connection InvalidToken)), started_vault, new_bot_service)"
    by (rule start_probe_failed [OF t g f fp])
  have fp2: "fetch_price failing_env started_vault (wallet_id example_config)
      (symbol example_config) =
      Inl (BinanceAPIException (Price_error ''BTCUSDT'' (BinanceLibException ''Invalid symbol.'')))"
    by (simp add: started_vault_eq example_config_fields failing_fetch_price)
  have s2: "start failing_env example_config (example_vault, new_bot_service) =
      (Inl (ValueError (Invalid_symbol_or_connection
          (BinanceAPIException (Price_error ''BTCUSDT'' (BinanceLibException ''Invalid symbol.''))))),
       started_vault, new_bot_service)"
    by (rule start_probe_failed [OF t g f fp2])
  show ?thesis by (simp add: b1 b2 s1 s2)
qed

text \<open>
  Claim C2 as amended. For a stored wallet whose api key or api secret does not decrypt
  (the cipher raises \<open>x\<close>), no operation that a caller asks of the services and that
  resolves the credentials succeeds, and none returns a plain text: the balance lookup,
  both order placements, the order lookup, the order listing and the order cancellation
  raise \<open>BinanceAPIException\<close> around \<open>x\<close> (no request reaches the exchange and the
  ledger is untouched), and \<open>start\<close> raises \<open>ValueError\<close> around \<open>x\<close> and leaves
  the bot as it was.
\<close>

theorem decrypt_failure_is_wrapped:
  assumes wf: "wf_vault ws"
      and rec: "wallet_record ws wid = Inr d"
      and k: "map_of d ''api_key'' = Some (PStr ck)"
      and s: "map_of d ''api_secret'' = Some (PStr cs)"
      and fail: "fernet_decrypt e ck = Inl x
                 \<or> (\<exists>pk. fernet_decrypt e ck = Inr pk \<and> fernet_decrypt e cs = Inl x)"
      and gw: "get_wallet ws wid = (Inr res, ws1)"
      and found: "wallet_found ws1 res"
  shows "wallet_credentials e ws wid = Inl x
       \<and> get_wallet_balance e ws wid = Inl (BinanceAPIException (Wallet_balance_error x))
       \<and> place_buy_order e symb qty wid pr (ws, ts) =
           (Inl (BinanceAPIException (Buy_order_error x)), [], ws1, ts)
       \<and> place_sell_order e symb qty wid pr (ws, ts) =
           (Inl (BinanceAPIException (Sell_order_error x)), [], ws1, ts)
       \<and> get_order e oid wid symb (ws, ts) =
           (Inl (BinanceAPIException (Get_order_error x)), ws1, ts)
       \<and> get_orders e wid sy (ws, ts) =
           (Inl (BinanceAPIException (Get_orders_error x)), ws1, ts)
       \<and> cancel_order e oid wid symb (ws, ts) =
           (Inl (BinanceAPIException (Cancel_order_error x)), ws1, ts)
       \<and> (bot_thread b \<noteq> Some Alive \<longrightarrow> wallet_id cfg = wid \<longrightarrow>
            start e cfg (ws, b) = (Inl (ValueError (Invalid_symbol_or_connection x)), ws1, b))"
proof -
  have c: "wallet_credentials e ws wid = Inl x"
    by (rule wallet_credentials_decrypt_failed [OF rec k s fail])
  have c1: "wallet_credentials e ws1 wid = Inl x"
    using credentials_after_get_wallet [OF wf gw] c by simp
  have bal: "get_wallet_balance e ws wid = Inl (BinanceAPIException (Wallet_balance_error x))"
    by (rule get_wallet_balance_credentials_failed [OF rec c])
  have buy: "place_buy_order e symb qty wid pr (ws, ts) =
           (Inl (BinanceAPIException (Buy_order_error x)), [], ws1, ts)"
    unfolding place_buy_order_def by (rule place_order_credentials_failed [OF gw found c1])
  have sell: "place_sell_order e symb qty wid pr (ws, ts) =
           (Inl (BinanceAPIException (Sell_order_error x)), [], ws1, ts)"
    unfolding place_sell_order_def by (rule place_order_credentials_failed [OF gw found c1])
  have go: "get_order e oid wid symb (ws, ts) =
           (Inl (BinanceAPIException (Get_order_error x)), ws1, ts)"
    unfolding get_order_def by (rule order_call_credentials_failed [OF gw found c1])
  have gos: "get_orders e wid sy (ws, ts) =
           (Inl (BinanceAPIException (Get_orders_error x)), ws1, ts)"
    by (rule get_orders_credentials_failed [OF gw found c1])
  have co: "cancel_order e oid wid symb (ws, ts) =
           (Inl (BinanceAPIException (Cancel_order_error x)), ws1, ts)"
    unfolding cancel_order_def by (rule order_call_credentials_failed [OF gw found c1])
  have st: "start e cfg (ws, b) = (Inl (ValueError (Invalid_symbol_or_connection x)), ws1, b)"
    if t: "bot_thread b \<noteq> Some Alive" and w: "wallet_id cfg = wid"
  proof -
    have f: "fetch_price e ws1 (wallet_id cfg) (symbol cfg) = Inl x"
      using c1 w by (simp add: fetch_price_def wallet_client_def)
    from start_probe_failed [OF t gw [folded w] found f] show ?thesis .
  qed
  show ?thesis
  proof (intro conjI impI)
    show "wallet_credentials e ws wid = Inl x" by (rule c)
    show "get_wallet_balance e ws wid = Inl (BinanceAPIException (Wallet_balance_error x))"
      by (rule bal)
    show "place_buy_order e symb qty wid pr (ws, ts) =
           (Inl (BinanceAPIException (Buy_order_error x)), [], ws1, ts)" by (rule buy)
    show "place_sell_order e symb qty wid pr (ws, ts) =
           (Inl (BinanceAPIException (Sell_order_error x)), [], ws1, ts)" by (rule sell)
    show "get_order e oid wid symb (ws, ts) =
           (Inl (BinanceAPIException (Get_order_error x)), ws1, ts)" by (rule go)
    show "get_orders e wid sy (ws, ts) =
           (Inl (BinanceAPIException (Get_orders_error x)), ws1, ts)" by (rule gos)
    show "cancel_order e oid wid symb (ws, ts) =
           (Inl (BinanceAPIException (Cancel_order_error x)), ws1, ts)" by (rule co)
  next
    assume "bot_thread b \<noteq> Some Alive" and "wallet_id cfg = wid"
    then show "start e cfg (ws, b) =
        (Inl (ValueError (Invalid_symbol_or_connection x)), ws1, b)" by (rule st)
  qed
qed

theorem decrypt_failure_is_wrapped_witness:
  "wf_vault example_vault
   \<and> wallet_record example_vault ''ODlhYmNkZWY='' =
       Inr [(''api_key'', PStr ''k1:0123456789abcdef''), (''api_secret'', PStr ''k1:secret''),
            (''name'', PStr ''Wallet-ODlhYm''), (''use_testnet'', PBool True),
            (''connected_at'', PStr ''2024-01-01T00:00:00'')]
   \<and> fernet_decrypt rotated_env ''k1:0123456789abcdef'' = Inl InvalidToken
   \<and> get_wallet example_vault ''ODlhYmNkZWY='' = (Inr (Some 1), started_vault)
   \<and> wallet_found started_vault (Some 1)
   \<and> get_wallet_balance rotated_env example_vault ''ODlhYmNkZWY='' =
       Inl (BinanceAPIException (Wallet_balance_error InvalidToken))
   \<and> place_buy_order rotated_env ''BTCUSDT'' 1 ''ODlhYmNkZWY='' None
         (example_vault, new_trading_service) =
       (Inl (BinanceAPIException (Buy_order_error InvalidToken)), [], started_vault,
        new_trading_service)
   \<and> get_order rotated_env ''1'' ''ODlhYmNkZWY='' ''BTCUSDT''
         (example_vault, new_trading_service) =
       (Inl (BinanceAPIException (Get_order_error InvalidToken)), started_vault,
        new_trading_service)
   \<and> get_orders rotated_env ''ODlhYmNkZWY='' None (example_vault, new_trading_service) =
       (Inl (BinanceAPIException (Get_orders_error InvalidToken)), started_vault,
        new_trading_service)
   \<and> cancel_order rotated_env ''1'' ''ODlhYmNkZWY='' ''BTCUSDT''
         (example_vault, new_trading_service) =
       (Inl (BinanceAPIException (Cancel_order_error InvalidToken)), started_vault,
        new_trading_service)
   \<and> start rotated_env example_config (example_vault, new_bot_service) =
       (Inl (ValueError (Invalid_symbol_or_connection InvalidToken)), started_vault,
        new_bot_service)"
proof -
  let ?d = "[(''api_key'', PStr ''k1:0123456789abcdef''), (''api_secret'', PStr ''k1:secret''),
            (''name'', PStr ''Wallet-ODlhYm''), (''use_testnet'', PBool True),
            (''connected_at'', PStr ''2024-01-01T00:00:00'')]"
  have k: "map_of ?d ''api_key'' = Some (PStr ''k1:0123456789abcdef'')"
    and s: "map_of ?d ''api_secret'' = Some (PStr ''k1:secret'')"
    by simp_all
  have fd: "fernet_decrypt rotated_env ''k1:0123456789abcdef'' = Inl InvalidToken"
    by (simp add: rotated_env_def)
  then have fail: "fernet_decrypt rotated_env ''k1:0123456789abcdef'' = Inl InvalidToken
     \<or> (\<exists>pk. fernet_decrypt rotated_env ''k1:0123456789abcdef'' = Inr pk
              \<and> fernet_decrypt rotated_env ''k1:secret'' = Inl InvalidToken)" ..
  have g: "get_wallet example_vault ''ODlhYmNkZWY='' = (Inr (Some 1), started_vault)"
    by (simp add: started_vault_eq example_get_wallet)
  have f: "wallet_found started_vault (Some 1)"
    unfolding started_vault_eq by (rule example_wallet_found)
  have t: "bot_thread new_bot_service \<noteq> Some Alive" by (simp add: new_bot_service_def)
  note w = example_config_fields(1)
  note th = decrypt_failure_is_wrapped [OF example_vault_wf example_vault_record k s fail g f,
      where symb = "''BTCUSDT''" and qty = 1 and pr = None and ts = new_trading_service
      and oid = "''1''" and sy = None and b = new_bot_service and cfg = example_config]
  from th have a: "get_wallet_balance rotated_env example_vault ''ODlhYmNkZWY='' =
       Inl (BinanceAPIException (Wallet_balance_error InvalidToken))" by (elim conjE)
  from th have b: "place_buy_order rotated_env ''BTCUSDT'' 1 ''ODlhYmNkZWY='' None
         (example_vault, new_trading_service) =
       (Inl (BinanceAPIException (Buy_order_error InvalidToken)), [], started_vault,
        new_trading_service)" by (elim conjE)
  from th have go: "get_order rotated_env ''1'' ''ODlhYmNkZWY='' ''BTCUSDT''
         (example_vault, new_trading_service) =
       (Inl (BinanceAPIException (Get_order_error InvalidToken)), started_vault,
        new_trading_service)" by (elim conjE)
  from th have gos: "get_orders rotated_env ''ODlhYmNkZWY='' None
         (example_vault, new_trading_service) =
       (Inl (BinanceAPIException (Get_orders_error InvalidToken)), started_vault,
        new_trading_service)" by (elim conjE)
  from th have co: "cancel_order rotated_env ''1'' ''ODlhYmNkZWY='' ''BTCUSDT''
         (example_vault, new_trading_service) =
       (Inl (BinanceAPIException (Cancel_order_error InvalidToken)), started_vault,
        new_trading_service)" by (elim conjE)
  from th t w have c: "start rotated_env example_config (example_vault, new_bot_service) =
       (Inl (ValueError (Invalid_symbol_or_connection InvalidToken)), started_vault,
        new_bot_service)" by (elim conjE) simp
  from example_vault_wf example_vault_record fd g f a b go gos co c show ?thesis
    by (intro conjI)
qed

section \<open>Market and limit orders (C7)\<close>

lemma example_client_from_wallet:
  assumes "fernet_decrypt e = fernet_decrypt example_env" and "lib_Client e = (\<lambda>k s t. None)"
  shows "get_binance_client_from_wallet e example_vault ''ODlhYmNkZWY='' =
     (Inr \<lparr>c_api_key = ''0123456789abcdef'', c_api_secret = ''secret'', c_testnet = True\<rparr>,
      started_vault)"
proof -
  have g: "get_wallet example_vault ''ODlhYmNkZWY='' = (Inr (Some 1), started_vault)"
    by (simp add: started_vault_eq example_get_wallet)
  have f: "wallet_found started_vault (Some 1)"
    unfolding started_vault_eq by (rule example_wallet_found)
  have c: "wallet_client e started_vault ''ODlhYmNkZWY='' =
     Inr \<lparr>c_api_key = ''0123456789abcdef'', c_api_secret = ''secret'', c_testnet = True\<rparr>"
    unfolding started_vault_eq by (rule example_client [OF assms])
  show ?thesis
    unfolding get_binance_client_from_wallet_def g using f c by simp
qed

lemma example_limit_answer:
  "create_order_response example_env (example_order (order_request ''BUY'' ''BTCUSDT'' 1 (Some 10))) =
     Inr \<lparr>order_id = Id_of_int 1, r_symbol = ''BTCUSDT'', side = BUY, order_type = LIMIT,
          order_status = NEW, quantity = 1, price = Some 10, executed_quantity = 0,
          cumulative_quote_quantity = 0, created_at = Iso_now ''2024-01-01T00:00:00'',
          updated_at = None\<rparr>"
  by (simp add: create_order_response_def order_response_mapped_def and_then_def example_order_def
      order_request_def symbol_required_def OrderSide_of_def OrderType_of_def OrderStatus_of_def
      float_required_def float_default0_def float_of_text_def price_of_def created_text_def
      updated_text_def example_env_def example_float_def)

lemma example_market_answer:
  "create_order_response example_env (example_order (order_request ''BUY'' ''BTCUSDT'' 1 None)) =
     Inr \<lparr>order_id = Id_of_int 1, r_symbol = ''BTCUSDT'', side = BUY, order_type = MARKET,
          order_status = NEW, quantity = 1, price = Some 0, executed_quantity = 0,
          cumulative_quote_quantity = 0, created_at = Iso_now ''2024-01-01T00:00:00'',
          updated_at = None\<rparr>"
  by (simp add: create_order_response_def order_response_mapped_def and_then_def example_order_def
      order_request_def symbol_required_def OrderSide_of_def OrderType_of_def OrderStatus_of_def
      float_required_def float_default0_def float_of_text_def price_of_def created_text_def
      updated_text_def example_env_def example_float_def)

lemma no_price_limit_answer:
  "create_order_response no_price_env
     ((example_order (order_request ''BUY'' ''BTCUSDT'' 1 (Some 10)))\<lparr>od_price := None\<rparr>) =
     Inr \<lparr>order_id = Id_of_int 1, r_symbol = ''BTCUSDT'', side = BUY, order_type = LIMIT,
          order_status = NEW, quantity = 1, price = None, executed_quantity = 0,
          cumulative_quote_quantity = 0, created_at = Iso_now ''2024-01-01T00:00:00'',
          updated_at = None\<rparr>"
  by (simp add: create_order_response_def order_response_mapped_def and_then_def example_order_def
      order_request_def symbol_required_def OrderSide_of_def OrderType_of_def OrderStatus_of_def
      float_required_def float_default0_def float_of_text_def price_of_def created_text_def
      updated_text_def no_price_env_def example_env_def example_float_def)

lemma place_order_ok:
  assumes "get_binance_client_from_wallet e ws wid = (Inr c, ws1)"
      and "lib_create_order e c (order_request side_text symb qty pr) = Inr od"
      and "od_orderId od = Some i"
      and "create_order_response e od = Inr r"
  shows "place_order side_text wrap e symb qty wid pr (ws, ts) =
           (Inr r, [order_request side_text symb qty pr], ws1,
            ts\<lparr>orders := (orders ts)(int_str i \<mapsto> od)\<rparr>)"
  using assms by (simp add: place_order_def Let_def)

text \<open>
  Claim C7, its third part: "in the returned record the price is \<open>None\<close> only in the
  MARKET case". The record is built from the answer of the exchange, not from the
  request: a limit buy at 10, sent as LIMIT with time in force GTC, whose answer carries
  no price, returns a record of type LIMIT with the price \<open>None\<close>.
\<close>

theorem limit_order_price_none_counterexample:
  "fst (snd (place_buy_order no_price_env ''BTCUSDT'' 1 ''ODlhYmNkZWY='' (Some 10)
         (example_vault, new_trading_service))) =
       [\<lparr>p_symbol = ''BTCUSDT'', p_side = ''BUY'', p_type = ''LIMIT'',
         p_timeInForce = Some ''GTC'', p_quantity = 1, p_price = Some 10\<rparr>]
   \<and> fst (place_buy_order no_price_env ''BTCUSDT'' 1 ''ODlhYmNkZWY='' (Some 10)
         (example_vault, new_trading_service)) =
       Inr \<lparr>order_id = Id_of_int 1, r_symbol = ''BTCUSDT'', side = BUY, order_type = LIMIT,
            order_status = NEW, quantity = 1, price = None, executed_quantity = 0,
            cumulative_quote_quantity = 0, created_at = Iso_now ''2024-01-01T00:00:00'',
            updated_at = None\<rparr>"
proof -
  let ?c = "\<lparr>c_api_key = ''0123456789abcdef'', c_api_secret = ''secret'', c_testnet = True\<rparr>"
  have c: "get_binance_client_from_wallet no_price_env example_vault ''ODlhYmNkZWY='' =
     (Inr ?c, started_vault)"
    by (rule example_client_from_wallet) (simp_all add: no_price_env_def example_env_def)
  have o: "lib_create_order no_price_env ?c rq = Inr ((example_order rq)\<lparr>od_price := None\<rparr>)"
    "od_orderId ((example_order rq)\<lparr>od_price := None\<rparr>) = Some 1" for rq
    by (simp_all add: no_price_env_def example_order_def)
  have "place_buy_order no_price_env ''BTCUSDT'' 1 ''ODlhYmNkZWY='' (Some 10)
         (example_vault, new_trading_service) =
       (Inr \<lparr>order_id = Id_of_int 1, r_symbol = ''BTCUSDT'', side = BUY, order_type = LIMIT,
            order_status = NEW, quantity = 1, price = None, executed_quantity = 0,
            cumulative_quote_quantity = 0, created_at = Iso_now ''2024-01-01T00:00:00'',
            updated_at = None\<rparr>,
        [order_request ''BUY'' ''BTCUSDT'' 1 (Some 10)], started_vault,
        new_trading_service\<lparr>orders := (orders new_trading_service)(int_str 1 \<mapsto>
           (example_order (order_request ''BUY'' ''BTCUSDT'' 1 (Some 10)))\<lparr>od_price := None\<rparr>)\<rparr>)"
    unfolding place_buy_order_def by (rule place_order_ok [OF c o no_price_limit_answer])
  then show ?thesis by (simp add: order_request_eq)
qed

text \<open>
  Claim C7 as amended. For a buy and for a sell whose client is resolved: exactly one
  request reaches the exchange; without a price it is a MARKET order with no time in
  force and no price, with a price it is a LIMIT order with time in force GTC and that
  price. The price of the returned record is read from the answer of the exchange: it
  is \<open>None\<close> exactly when the answer has no price, or an empty one, or the answer
  could not be mapped and the basic record was built instead, whatever the order type.
\<close>

theorem order_type_follows_price:
  assumes c: "get_binance_client_from_wallet e ws wid = (Inr c, ws1)"
  shows "fst (snd (place_buy_order e symb qty wid pr (ws, ts))) =
           [\<lparr>p_symbol = symb, p_side = ''BUY'',
             p_type = (if pr = None then ''MARKET'' else ''LIMIT''),
             p_timeInForce = (if pr = None then None else Some ''GTC''),
             p_quantity = qty, p_price = pr\<rparr>]
       \<and> fst (snd (place_sell_order e symb qty wid pr (ws, ts))) =
           [\<lparr>p_symbol = symb, p_side = ''SELL'',
             p_type = (if pr = None then ''MARKET'' else ''LIMIT''),
             p_timeInForce = (if pr = None then None else Some ''GTC''),
             p_quantity = qty, p_price = pr\<rparr>]
       \<and> (\<forall>r. fst (place_buy_order e symb qty wid pr (ws, ts)) = Inr r \<longrightarrow>
             (\<exists>od. lib_create_order e c (order_request ''BUY'' symb qty pr) = Inr od
                 \<and> (price r = None \<longleftrightarrow>
                      od_price od = None \<or> od_price od = Some []
                      \<or> isl (order_response_mapped e od))))
       \<and> (\<forall>r. fst (place_sell_order e symb qty wid pr (ws, ts)) = Inr r \<longrightarrow>
             (\<exists>od. lib_create_order e c (order_request ''SELL'' symb qty pr) = Inr od
                 \<and> (price r = None \<longleftrightarrow>
                      od_price od = None \<or> od_price od = Some []
                      \<or> isl (order_response_mapped e od))))"
proof (intro conjI allI impI)
  show "fst (snd (place_buy_order e symb qty wid pr (ws, ts))) =
           [\<lparr>p_symbol = symb, p_side = ''BUY'',
             p_type = (if pr = None then ''MARKET'' else ''LIMIT''),
             p_timeInForce = (if pr = None then None else Some ''GTC''),
             p_quantity = qty, p_price = pr\<rparr>]"
    unfolding place_buy_order_def place_order_submits [OF c] order_request_eq ..
  show "fst (snd (place_sell_order e symb qty wid pr (ws, ts))) =
           [\<lparr>p_symbol = symb, p_side = ''SELL'',
             p_type = (if pr = None then ''MARKET'' else ''LIMIT''),
             p_timeInForce = (if pr = None then None else Some ''GTC''),
             p_quantity = qty, p_price = pr\<rparr>]"
    unfolding place_sell_order_def place_order_submits [OF c] order_request_eq ..
next
  fix r assume "fst (place_buy_order e symb qty wid pr (ws, ts)) = Inr r"
  then show "\<exists>od. lib_create_order e c (order_request ''BUY'' symb qty pr) = Inr od
                 \<and> (price r = None \<longleftrightarrow>
                      od_price od = None \<or> od_price od = Some []
                      \<or> isl (order_response_mapped e od))"
    unfolding place_buy_order_def by (rule place_order_price [OF c])
next
  fix r assume "fst (place_sell_order e symb qty wid pr (ws, ts)) = Inr r"
  then show "\<exists>od. lib_create_order e c (order_request ''SELL'' symb qty pr) = Inr od
                 \<and> (price r = None \<longleftrightarrow>
                      od_price od = None \<or> od_price od = Some []
                      \<or> isl (order_response_mapped e od))"
    unfolding place_sell_order_def by (rule place_order_price [OF c])
qed

theorem order_type_follows_price_witness:
  "get_binance_client_from_wallet example_env example_vault ''ODlhYmNkZWY='' =
     (Inr \<lparr>c_api_key = ''0123456789abcdef'', c_api_secret = ''secret'', c_testnet = True\<rparr>,
      started_vault)
   \<and> fst (snd (place_buy_order example_env ''BTCUSDT'' 1 ''ODlhYmNkZWY='' None
         (example_vault, new_trading_service))) =
       [\<lparr>p_symbol = ''BTCUSDT'', p_side = ''BUY'', p_type = ''MARKET'', p_timeInForce = None,
         p_quantity = 1, p_price = None\<rparr>]
   \<and> fst (snd (place_sell_order example_env ''BTCUSDT'' 1 ''ODlhYmNkZWY='' (Some 10)
         (example_vault, new_trading_service))) =
       [\<lparr>p_symbol = ''BTCUSDT'', p_side = ''SELL'', p_type = ''LIMIT'',
         p_timeInForce = Some ''GTC'', p_quantity = 1, p_price = Some 10\<rparr>]
   \<and> fst (place_buy_order example_env ''BTCUSDT'' 1 ''ODlhYmNkZWY='' (Some 10)
         (example_vault, new_trading_service)) =
       Inr \<lparr>order_id = Id_of_int 1, r_symbol = ''BTCUSDT'', side = BUY, order_type = LIMIT,
            order_status = NEW, quantity = 1, price = Some 10, executed_quantity = 0,
            cumulative_quote_quantity = 0, created_at = Iso_now ''2024-01-01T00:00:00'',
            updated_at = None\<rparr>
   \<and> fst (place_buy_order example_env ''BTCUSDT'' 1 ''ODlhYmNkZWY='' None
         (example_vault, new_trading_service)) =
       Inr \<lparr>order_id = Id_of_int 1, r_symbol = ''BTCUSDT'', side = BUY, order_type = MARKET,
            order_status = NEW, quantity = 1, price = Some 0, executed_quantity = 0,
            cumulative_quote_quantity = 0, created_at = Iso_now ''2024-01-01T00:00:00'',
            updated_at = None\<rparr>"
proof -
  let ?c = "\<lparr>c_api_key = ''0123456789abcdef'', c_api_secret = ''secret'', c_testnet = True\<rparr>"
  have c: "get_binance_client_from_wallet example_env example_vault ''ODlhYmNkZWY='' =
     (Inr ?c, started_vault)"
    by (rule example_client_from_wallet) (simp_all add: example_env_def)
  note th = order_type_follows_price [OF c]
  from th [of "''BTCUSDT''" 1 None new_trading_service]
  have m: "fst (snd (place_buy_order example_env ''BTCUSDT'' 1 ''ODlhYmNkZWY='' None
         (example_vault, new_trading_service))) =
       [\<lparr>p_symbol = ''BTCUSDT'', p_side = ''BUY'', p_type = ''MARKET'', p_timeInForce = None,
         p_quantity = 1, p_price = None\<rparr>]"
    by simp
  from th [of "''BTCUSDT''" 1 "Some 10" new_trading_service]
  have l: "fst (snd (place_sell_order example_env ''BTCUSDT'' 1 ''ODlhYmNkZWY='' (Some 10)
         (example_vault, new_trading_service))) =
       [\<lparr>p_symbol = ''BTCUSDT'', p_side = ''SELL'', p_type = ''LIMIT'',
         p_timeInForce = Some ''GTC'', p_quantity = 1, p_price = Some 10\<rparr>]"
    by simp
  have o: "lib_create_order example_env ?c rq = Inr (example_order rq)"
    "od_orderId (example_order rq) = Some 1" for rq
    by (simp_all add: example_env_def example_order_def)
  have rl: "fst (place_buy_order example_env ''BTCUSDT'' 1 ''ODlhYmNkZWY='' (Some 10)
         (example_vault, new_trading_service)) =
       Inr \<lparr>order_id = Id_of_int 1, r_symbol = ''BTCUSDT'', side = BUY, order_type = LIMIT,
            order_status = NEW, quantity = 1, price = Some 10, executed_quantity = 0,
            cumulative_quote_quantity = 0, created_at = Iso_now ''2024-01-01T00:00:00'',
            updated_at = None\<rparr>"
    unfolding place_buy_order_def place_order_ok [OF c o example_limit_answer] by simp
  have rm: "fst (place_buy_order example_env ''BTCUSDT'' 1 ''ODlhYmNkZWY='' None
         (example_vault, new_trading_service)) =
       Inr \<lparr>order_id = Id_of_int 1, r_symbol = ''BTCUSDT'', side = BUY, order_type = MARKET,
            order_status = NEW, quantity = 1, price = Some 0, executed_quantity = 0,
            cumulative_quote_quantity = 0, created_at = Iso_now ''2024-01-01T00:00:00'',
            updated_at = None\<rparr>"
    unfolding place_buy_order_def place_order_ok [OF c o example_market_answer] by simp
  from c m l rl rm show ?thesis by (intro conjI)
qed

end
